theory Spec2Isabelle
  imports Complex_Main "HOL-Library.Sublist"
begin

section \<open>Values shared by the handlers of \<^verbatim>\<open>src/index.ts\<close>\<close>

text \<open>
  The server is four request handlers over two collaborators, the payment gateway and
  the SMTP transport. Each handler is embedded as a function from the process
  environment, the collaborators' answers and the request to the JSON response together
  with the list of collaborator calls the handler attempted, in order.

  Request bodies are taken at their declared TypeScript types. The fields that a handler
  itself tests for presence (the contact fields, the \<^verbatim>\<open>session_id\<close> query parameter,
  the environment variables) are optional in the model.

  A number written in a request body or in the source is a rational, the number its
  digits spell. The value the engine holds for it is a \<open>number\<close>, its IEEE 754 double,
  and the amounts of the checkout are computed on those values. A number that is only
  passed on (a quantity) or printed through \<^verbatim>\<open>toFixed\<close> (the receipt templates) is kept
  as written. A JavaScript string is a list of code units, those below 256.

  The handlers run to their response: \<^verbatim>\<open>getTransporter\<close>, the logging and the building
  of the mail options call no collaborator and are taken not to throw.
\<close>

datatype json =
    JString string
  | JNumber rat
  | JBool bool
  | JNull
  | JObject "(string \<times> json) list"

record response =
  status :: nat
  body :: json

text \<open>A thrown value: an \<^verbatim>\<open>Error\<close> with its message, or anything else.\<close>

datatype thrown = Error string | NonError

text \<open>\<^verbatim>\<open>error instanceof Error ? error.message : 'Unknown error occurred'\<close>\<close>

definition errorMessage :: "thrown \<Rightarrow> string" where
  "errorMessage e = (case e of Error m \<Rightarrow> m | NonError \<Rightarrow> ''Unknown error occurred'')"

text \<open>Truthiness of a value that is a string or \<^verbatim>\<open>undefined\<close>.\<close>

definition truthy :: "string option \<Rightarrow> bool" where
  "truthy v = (case v of None \<Rightarrow> False | Some s \<Rightarrow> s \<noteq> [])"

text \<open>\<^verbatim>\<open>a || b\<close> on such values.\<close>

definition or_else :: "string option \<Rightarrow> string option \<Rightarrow> string option" where
  "or_else a b = (if truthy a then a else b)"

text \<open>Interpolation of such a value into a template literal.\<close>

definition interpolate :: "string option \<Rightarrow> string" where
  "interpolate v = (case v of None \<Rightarrow> ''undefined'' | Some s \<Rightarrow> s)"

text \<open>
  A value of the type Number: a finite one, an infinity or NaN. The finite ones are
  rationals; the sign of zero is not kept.
\<close>

datatype number = Finite rat | PlusInfinity | MinusInfinity | NaN

text \<open>The number of binary digits of a positive integer.\<close>

function bit_length :: "int \<Rightarrow> int" where
  "bit_length n = (if n \<le> 0 then 0 else 1 + bit_length (n div 2))"
  by pat_completeness auto
termination
  by (relation "measure nat") auto

declare bit_length.simps [simp del]

text \<open>For a positive \<open>x\<close>, the \<open>e\<close> with \<open>2 powi e \<le> x < 2 powi (e + 1)\<close>.\<close>

definition exponent :: "rat \<Rightarrow> int" where
  "exponent x =
     (let d = bit_length (fst (quotient_of x)) - bit_length (snd (quotient_of x))
      in if 2 powi d \<le> x then d else d - 1)"

text \<open>The nearest integer, a tie going to the even one.\<close>

definition round_half_even :: "rat \<Rightarrow> int" where
  "round_half_even x =
     (if x - of_int \<lfloor>x\<rfloor> < 1 / 2 then \<lfloor>x\<rfloor>
      else if 1 / 2 < x - of_int \<lfloor>x\<rfloor> then \<lfloor>x\<rfloor> + 1
      else if even \<lfloor>x\<rfloor> then \<lfloor>x\<rfloor> else \<lfloor>x\<rfloor> + 1)"

text \<open>
  The Number value for a rational: the nearest IEEE 754 binary64 value, a tie going to
  the even significand. The significand has 53 binary digits, the least exponent is
  \<open>-1022\<close> (below it the spacing stays \<open>2 powi (-1074)\<close>), and a result that reaches
  \<open>2 ^ 1024\<close> is an infinity. It is what \<^verbatim>\<open>JSON.parse\<close> makes of a number of the
  request body, what a numeric literal of the source denotes, and what an arithmetic
  operation returns for its exact result.
\<close>

definition double :: "rat \<Rightarrow> number" where
  "double x =
     (if x = 0 then Finite 0
      else
        let u = 2 powi (max (exponent \<bar>x\<bar>) (- 1022) - 52);
            r = of_int (round_half_even (x / u)) * u
        in if 2 ^ 1024 \<le> \<bar>r\<bar> then (if 0 < x then PlusInfinity else MinusInfinity)
           else Finite r)"

fun sign :: "number \<Rightarrow> int" where
  "sign (Finite a) = (if a < 0 then - 1 else if a = 0 then 0 else 1)"
| "sign PlusInfinity = 1"
| "sign MinusInfinity = - 1"
| "sign NaN = 0"

text \<open>
  The operator \<^verbatim>\<open>*\<close> on Numbers: NaN when an operand is NaN or when an infinity meets a
  zero, the infinity of the product's sign when an operand is infinite, and otherwise
  the Number value for the exact product.
\<close>

fun multiply :: "number \<Rightarrow> number \<Rightarrow> number" where
  "multiply NaN y = NaN"
| "multiply x NaN = NaN"
| "multiply (Finite a) (Finite b) = double (a * b)"
| "multiply x y =
     (if sign x * sign y = 0 then NaN
      else if 0 < sign x * sign y then PlusInfinity else MinusInfinity)"

text \<open>
  \<^verbatim>\<open>Math.round\<close>: the nearest integer, a tie going towards plus infinity; an infinity
  and NaN are returned as they are.
\<close>

fun Math_round :: "number \<Rightarrow> number" where
  "Math_round (Finite x) = Finite (of_int \<lfloor>x + 1 / 2\<rfloor>)"
| "Math_round x = x"

text \<open>
  The rounding the specification names, written from its words: half away from zero.
\<close>

definition round_half_away_from_zero :: "rat \<Rightarrow> int" where
  "round_half_away_from_zero x = (if x < 0 then - \<lfloor>- x + 1 / 2\<rfloor> else \<lfloor>x + 1 / 2\<rfloor>)"

text \<open>Decimal digits of an array length (\<^verbatim>\<open>items.length.toString()\<close>).\<close>

definition digit_char :: "nat \<Rightarrow> char" where
  "digit_char d = char_of (48 + d)"

fun toString_nat :: "nat \<Rightarrow> string" where
  "toString_nat n = (if n < 10 then [digit_char n] else toString_nat (n div 10) @ [digit_char (n mod 10)])"

declare toString_nat.simps [simp del]

section \<open>The checkout session parameters\<close>

record CartItem =
  title :: string
  price :: rat
  quantity :: rat

record CreateCheckoutSessionRequest =
  items :: "CartItem list"
  customerEmail :: string
  successUrl :: string
  cancelUrl :: string
  currency :: string
  currencyMultiplier :: rat

text \<open>\<^verbatim>\<open>Stripe.Checkout.SessionCreateParams.LineItem\<close>, the fields the handler sets.\<close>

record product_data =
  name' :: string
  description :: "string option"

record price_data =
  currency' :: string
  product_data :: product_data
  unit_amount :: number

record LineItem =
  price_data :: price_data
  quantity' :: rat

record SessionCreateParams =
  payment_method_types :: "string list"
  line_items :: "LineItem list"
  mode :: string
  customer_email :: string
  success_url :: string
  cancel_url :: string
  locale' :: string
  metadata :: "(string \<times> string) list"

text \<open>The session the gateway answers with, the fields the handlers read.\<close>

record Session =
  id' :: string
  url :: "string option"
  payment_status :: string
  amount_total :: "int option"
  customer_email' :: "string option"
  metadata' :: "(string \<times> string) list option"

definition supportedCurrencies :: "string list" where
  "supportedCurrencies = [''USD'', ''GBP'', ''EUR'', ''CAD'', ''AUD'', ''NGN'']"

text \<open>
  \<^verbatim>\<open>supportedCurrencies.includes(currency) ? currency : 'USD'\<close>
\<close>

definition stripeCurrency :: "CreateCheckoutSessionRequest \<Rightarrow> string" where
  "stripeCurrency req =
     (if currency req \<in> set supportedCurrencies then currency req else ''USD'')"

definition shippingRates :: "(string \<times> rat) list" where
  "shippingRates = [(''USD'', 10), (''GBP'', 79 / 10), (''NGN'', 15000)]"

text \<open>
  \<^verbatim>\<open>shippingRates[stripeCurrency] || 10\<close>: a missing key and a rate of zero both give 10.
\<close>

definition shippingAmount :: "CreateCheckoutSessionRequest \<Rightarrow> rat" where
  "shippingAmount req =
     (case map_of shippingRates (stripeCurrency req) of
        None \<Rightarrow> 10
      | Some r \<Rightarrow> if r = 0 then 10 else r)"

definition itemLine :: "CreateCheckoutSessionRequest \<Rightarrow> CartItem \<Rightarrow> LineItem" where
  "itemLine req item =
     \<lparr>price_data =
        \<lparr>currency' = stripeCurrency req,
         product_data = \<lparr>name' = title item, description = None\<rparr>,
         unit_amount = Math_round (multiply (double (price item)) (double (currencyMultiplier req)))\<rparr>,
      quantity' = quantity item\<rparr>"

definition shippingLine :: "CreateCheckoutSessionRequest \<Rightarrow> LineItem" where
  "shippingLine req =
     \<lparr>price_data =
        \<lparr>currency' = stripeCurrency req,
         product_data = \<lparr>name' = ''Shipping'', description = Some ''Standard shipping fee''\<rparr>,
         unit_amount =
           Math_round (multiply (double (shippingAmount req)) (double (currencyMultiplier req)))\<rparr>,
      quantity' = 1\<rparr>"

text \<open>\<^verbatim>\<open>items.map(...)\<close> followed by \<^verbatim>\<open>lineItems.push(shipping)\<close>.\<close>

definition lineItems :: "CreateCheckoutSessionRequest \<Rightarrow> LineItem list" where
  "lineItems req = map (itemLine req) (items req) @ [shippingLine req]"

definition sessionParams :: "CreateCheckoutSessionRequest \<Rightarrow> SessionCreateParams" where
  "sessionParams req =
     \<lparr>payment_method_types = [''card''],
      line_items = lineItems req,
      mode = ''payment'',
      customer_email = customerEmail req,
      success_url = successUrl req,
      cancel_url = cancelUrl req,
      locale' = ''auto'',
      metadata =
        [(''customer_email'', customerEmail req),
         (''items_count'', toString_nat (length (items req))),
         (''original_currency'', currency req)]\<rparr>"

section \<open>Mail and the collaborators\<close>

text \<open>
  A template literal is kept as its sequence of literal chunks and substitutions.
  \<open>Lit\<close> is a literal chunk: the sender and subject lines carry their text (characters
  beyond ASCII left out), the html and text bodies only the words next to each
  substitution, without style sheet, layout and pictographs; no statement below depends
  on the text of a \<open>Lit\<close>. \<open>Str\<close> is a substituted string, \<open>Num x\<close> a substituted
  number and \<open>Fixed x d\<close> the substitution of \<^verbatim>\<open>x.toFixed(d)\<close>, whose digits are not
  spelled out.
\<close>

datatype piece = Lit string | Str string | Num rat | Fixed rat nat

type_synonym template = "piece list"

record MailOptions =
  from' :: template
  to' :: "string option"
  subject' :: template
  replyTo :: "string option"
  html :: template
  text' :: "template option"

text \<open>
  The collaborators, as the answers they give to one request. \<^verbatim>\<open>verify\<close> is
  \<^verbatim>\<open>transporter.verify()\<close>, \<open>None\<close> when it resolves; \<^verbatim>\<open>sendMail w k m\<close> is the
  outcome of the \<open>k\<close>-th \<^verbatim>\<open>transporter.sendMail\<close> of the request, sending \<open>m\<close>;
  a gateway call answers with a session or throws. The two clock fields are the texts
  that \<^verbatim>\<open>toLocaleString()\<close> and \<^verbatim>\<open>toLocaleDateString('en-GB', ...)\<close> give on the
  \<open>k\<close>-th \<^verbatim>\<open>new Date()\<close> of the request.
\<close>

record world =
  verify :: "thrown option"
  sendMail :: "nat \<Rightarrow> MailOptions \<Rightarrow> thrown option"
  sessions_create :: "SessionCreateParams \<Rightarrow> thrown + Session"
  sessions_retrieve :: "string \<Rightarrow> string list \<Rightarrow> thrown + Session"
  toLocaleString :: "nat \<Rightarrow> string"
  toLocaleDateString :: "nat \<Rightarrow> string"

text \<open>
  \<^verbatim>\<open>process.env\<close>, the variables the handlers read. The variables that only configure
  the transport (\<^verbatim>\<open>SMTP_HOST\<close>, \<^verbatim>\<open>SMTP_PORT\<close>, \<^verbatim>\<open>SMTP_SECURE\<close>) act through the
  answers of \<^verbatim>\<open>verify\<close> and \<^verbatim>\<open>sendMail\<close>.
\<close>

record env =
  EMAIL_USER :: "string option"
  EMAIL_PASS :: "string option"
  ADMIN_EMAIL :: "string option"

text \<open>A call to a collaborator that a handler attempted.\<close>

datatype call =
    Verify
  | SendMail MailOptions
  | SessionsCreate SessionCreateParams
  | SessionsRetrieve string "string list"

section \<open>The gateway handlers\<close>

definition json_opt_string :: "string option \<Rightarrow> json" where
  "json_opt_string v = (case v of None \<Rightarrow> JNull | Some s \<Rightarrow> JString s)"

text \<open>\<^verbatim>\<open>app.post('/create-checkout-session', ...)\<close>\<close>

definition create_checkout_session ::
  "world \<Rightarrow> CreateCheckoutSessionRequest \<Rightarrow> response \<times> call list" where
  "create_checkout_session w req =
     (case sessions_create w (sessionParams req) of
        Inr session \<Rightarrow>
          (\<lparr>status = 200,
            body = JObject [(''id'', JString (id' session)), (''url'', json_opt_string (url session))]\<rparr>,
           [SessionsCreate (sessionParams req)])
      | Inl error \<Rightarrow>
          (\<lparr>status = 500, body = JObject [(''error'', JString (errorMessage error))]\<rparr>,
           [SessionsCreate (sessionParams req)]))"

text \<open>
  A value of \<^verbatim>\<open>req.query\<close>: a string, an array of strings or a nested object.
\<close>

datatype query_value = QString string | QArray "string list" | QObject

text \<open>\<^verbatim>\<open>!session_id || typeof session_id !== 'string'\<close>\<close>

definition session_id_rejected :: "query_value option \<Rightarrow> bool" where
  "session_id_rejected q =
     (case q of
        None \<Rightarrow> True
      | Some (QString s) \<Rightarrow> s = []
      | Some (QArray _) \<Rightarrow> True
      | Some QObject \<Rightarrow> True)"

definition session_id_string :: "query_value option \<Rightarrow> string" where
  "session_id_string q = (case q of Some (QString s) \<Rightarrow> s | _ \<Rightarrow> [])"

definition json_metadata :: "(string \<times> string) list option \<Rightarrow> json" where
  "json_metadata v =
     (case v of None \<Rightarrow> JNull | Some kvs \<Rightarrow> JObject (map (\<lambda>(k, x). (k, JString x)) kvs))"

definition json_opt_int :: "int option \<Rightarrow> json" where
  "json_opt_int v = (case v of None \<Rightarrow> JNull | Some n \<Rightarrow> JNumber (of_int n))"

text \<open>\<^verbatim>\<open>app.get('/verify-payment', ...)\<close>\<close>

definition verify_payment :: "world \<Rightarrow> query_value option \<Rightarrow> response \<times> call list" where
  "verify_payment w session_id =
     (if session_id_rejected session_id then
        (\<lparr>status = 400, body = JObject [(''error'', JString ''Session ID is required'')]\<rparr>, [])
      else
        (case sessions_retrieve w (session_id_string session_id) [''payment_intent''] of
           Inr session \<Rightarrow>
             (\<lparr>status = 200,
               body = JObject
                 [(''id'', JString (id' session)),
                  (''payment_status'', JString (payment_status session)),
                  (''amount_total'', json_opt_int (amount_total session)),
                  (''customer_email'', json_opt_string (customer_email' session)),
                  (''metadata'', json_metadata (metadata' session))]\<rparr>,
              [SessionsRetrieve (session_id_string session_id) [''payment_intent'']])
         | Inl error \<Rightarrow>
             (\<lparr>status = 500, body = JObject [(''error'', JString (errorMessage error))]\<rparr>,
              [SessionsRetrieve (session_id_string session_id) [''payment_intent'']])))"

section \<open>The contact form\<close>

record ContactFormRequest =
  name :: "string option"
  email :: "string option"
  subject :: "string option"
  message :: "string option"

text \<open>
  The regular expression \<^verbatim>\<open>/^[^\s@]+@[^\s@]+\.[^\s@]+$/\<close>. The class \<^verbatim>\<open>\s\<close> has,
  among the code units below 256, the tab, the line feed, the vertical tab, the form
  feed, the carriage return, the space and the no-break space.
\<close>

definition white_space :: "char \<Rightarrow> bool" where
  "white_space c = (of_char c \<in> {9, 10, 11, 12, 13, 32, 160 :: nat})"

text \<open>The class \<^verbatim>\<open>[^\s@]\<close>.\<close>

definition not_space_at :: "char \<Rightarrow> bool" where
  "not_space_at c = (\<not> white_space c \<and> c \<noteq> CHR ''@'')"

text \<open>\<^verbatim>\<open>[^\s@]+$\<close>\<close>

definition match_tld :: "string \<Rightarrow> bool" where
  "match_tld s = (s \<noteq> [] \<and> list_all not_space_at s)"

text \<open>
  \<^verbatim>\<open>[^\s@]+\.[^\s@]+$\<close>: one character of the class, then either the dot and the rest,
  or more of the class.
\<close>

fun match_domain :: "string \<Rightarrow> bool" where
  "match_domain [] = False"
| "match_domain (c # cs) =
     (not_space_at c \<and>
      ((case cs of [] \<Rightarrow> False | d # ds \<Rightarrow> d = CHR ''.'' \<and> match_tld ds) \<or> match_domain cs))"

text \<open>\<^verbatim>\<open>^[^\s@]+@[^\s@]+\.[^\s@]+$\<close>\<close>

fun match_local :: "string \<Rightarrow> bool" where
  "match_local [] = False"
| "match_local (c # cs) =
     (not_space_at c \<and>
      ((case cs of [] \<Rightarrow> False | d # ds \<Rightarrow> d = CHR ''@'' \<and> match_domain ds) \<or> match_local cs))"

definition emailRegex_test :: "string \<Rightarrow> bool" where
  "emailRegex_test s = match_local s"

text \<open>\<^verbatim>\<open>String.prototype.includes\<close>\<close>

definition includes' :: "string \<Rightarrow> string \<Rightarrow> bool" where
  "includes' s t = sublist t s"

definition adminEmail :: "env \<Rightarrow> string option" where
  "adminEmail e = or_else (ADMIN_EMAIL e) (EMAIL_USER e)"

definition contact_adminMailOptions :: "env \<Rightarrow> world \<Rightarrow> ContactFormRequest \<Rightarrow> MailOptions" where
  \<open>contact_adminMailOptions e w req =
     \<lparr>from' = [Lit ''"Adisa Olashile Contact Form" <'', Str (interpolate (EMAIL_USER e)), Lit ''>''],
      to' = adminEmail e,
      subject' = [Lit ''New Contact Form: '', Str (interpolate (subject req))],
      replyTo = email req,
      html =
        [Lit ''From:'', Str (interpolate (name req)), Lit '' ('', Str (interpolate (email req)),
         Lit '') Subject:'', Str (interpolate (subject req)),
         Lit ''Message:'', Str (interpolate (message req)),
         Lit ''Received: '', Str (toLocaleString w 0),
         Lit ''Click "Reply" in your email client to respond to '', Str (interpolate (name req)),
         Lit ''.''],
      text' = Some
        [Lit ''From: '', Str (interpolate (name req)), Lit '' ('', Str (interpolate (email req)),
         Lit '') Subject: '', Str (interpolate (subject req)),
         Lit ''Received: '', Str (toLocaleString w 1),
         Lit ''MESSAGE:'', Str (interpolate (message req)),
         Lit ''Reply directly to this email to respond to '', Str (interpolate (name req)),
         Lit ''.'']\<rparr>\<close>

definition userMailOptions :: "env \<Rightarrow> ContactFormRequest \<Rightarrow> MailOptions" where
  \<open>userMailOptions e req =
     \<lparr>from' = [Lit ''"Adisa Olashile" <'', Str (interpolate (EMAIL_USER e)), Lit ''>''],
      to' = email req,
      subject' = [Lit ''Thank You for Contacting Adisa Olashile!''],
      replyTo = None,
      html =
        [Lit ''Thank You, '', Str (interpolate (name req)),
         Lit ''! Dear '', Str (interpolate (name req)),
         Lit '', Your Message Summary: Subject:'', Str (interpolate (subject req)),
         Lit ''</p>'', Str (interpolate (message req)),
         Lit ''Our Contact Information:''],
      text' = Some
        [Lit ''Dear '', Str (interpolate (name req)),
         Lit '', YOUR MESSAGE SUMMARY: Subject: '', Str (interpolate (subject req)),
         Lit '' '', Str (interpolate (message req)),
         Lit ''OUR CONTACT INFORMATION:'']\<rparr>\<close>

text \<open>The \<^verbatim>\<open>catch\<close> block of the contact handler.\<close>

definition userErrorMessage :: "thrown \<Rightarrow> string" where
  "userErrorMessage error =
     (if includes' (errorMessage error) ''Invalid login'' \<or> includes' (errorMessage error) ''BadCredentials''
      then ''Email authentication failed. Please contact administrator.''
      else if includes' (errorMessage error) ''EAUTH''
      then ''Email authentication failed. Please check your email configuration.''
      else if includes' (errorMessage error) ''ECONNREFUSED''
      then ''Unable to connect to email server. Please try again later.''
      else ''Failed to send message. Please try again later.'')"

definition contact_failure :: "nat \<Rightarrow> string \<Rightarrow> response" where
  "contact_failure code msg =
     \<lparr>status = code, body = JObject [(''success'', JBool False), (''error'', JString msg)]\<rparr>"

definition contact_success :: response where
  "contact_success =
     \<lparr>status = 200,
      body = JObject
        [(''success'', JBool True),
         (''message'',
          JString ''Message sent successfully! You should receive a confirmation email shortly.'')]\<rparr>"

text \<open>\<^verbatim>\<open>app.post('/api/contact', ...)\<close>\<close>

definition contact :: "env \<Rightarrow> world \<Rightarrow> ContactFormRequest \<Rightarrow> response \<times> call list" where
  "contact e w req =
     (if \<not> truthy (name req) \<or> \<not> truthy (email req) \<or> \<not> truthy (subject req) \<or> \<not> truthy (message req)
      then (contact_failure 400 ''All fields are required'', [])
      else if \<not> emailRegex_test (interpolate (email req))
      then (contact_failure 400 ''Invalid email address'', [])
      else if \<not> truthy (EMAIL_USER e) \<or> \<not> truthy (EMAIL_PASS e)
      then (contact_failure 500 ''Email service is not configured'', [])
      else
        (case verify w of
           Some verifyError \<Rightarrow>
             (contact_failure 500 ''Email service temporarily unavailable. Please try again later.'',
              [Verify])
         | None \<Rightarrow>
             (case sendMail w 0 (contact_adminMailOptions e w req) of
                Some error \<Rightarrow>
                  (contact_failure 500 (userErrorMessage error),
                   [Verify, SendMail (contact_adminMailOptions e w req)])
              | None \<Rightarrow>
                  (case sendMail w 1 (userMailOptions e req) of
                     Some error \<Rightarrow>
                       (contact_failure 500 (userErrorMessage error),
                        [Verify, SendMail (contact_adminMailOptions e w req),
                         SendMail (userMailOptions e req)])
                   | None \<Rightarrow>
                       (contact_success,
                        [Verify, SendMail (contact_adminMailOptions e w req),
                         SendMail (userMailOptions e req)])))))"

section \<open>The order receipt\<close>

record SendReceiptRequest =
  customerEmail' :: string
  orderId :: string
  items' :: "CartItem list"
  total :: rat
  customerName :: string
  shippingAddress :: string

text \<open>\<^verbatim>\<open>shippingAddress.replace(/,/g, '<br>')\<close>\<close>

definition replace_commas :: "string \<Rightarrow> string" where
  "replace_commas s = concat (map (\<lambda>c. if c = CHR '','' then ''<br>'' else [c]) s)"

text \<open>One item of the customer's order summary.\<close>

definition customer_item :: "CartItem \<Rightarrow> template" where
  \<open>customer_item item =
     [Lit ''<div class="item">'', Str (title item),
      Lit ''Quantity: '', Num (quantity item),
      Lit ''$'', Fixed (price item * quantity item) 2,
      Lit ''$'', Fixed (price item) 2,
      Lit '' each'']\<close>

text \<open>One item of the admin's list.\<close>

definition admin_item :: "CartItem \<Rightarrow> template" where
  "admin_item item =
     [Lit ''<li>'', Str (title item),
      Lit '' - $'', Fixed (price item) 2,
      Lit '' x '', Num (quantity item),
      Lit '' = $'', Fixed (price item * quantity item) 2,
      Lit ''</li>'']"

definition customerMailOptions :: "env \<Rightarrow> world \<Rightarrow> SendReceiptRequest \<Rightarrow> MailOptions" where
  \<open>customerMailOptions e w req =
     \<lparr>from' = [Lit ''"Adisa Olashile Art" <'', Str (interpolate (EMAIL_USER e)), Lit ''>''],
      to' = Some (customerEmail' req),
      subject' = [Lit ''Order Confirmation - '', Str (orderId req)],
      replyTo = None,
      html =
        [Lit ''Order ID: '', Str (orderId req),
         Lit ''Dear '', Str (customerName req),
         Lit '', thank you for supporting African art! Order Date:'', Str (toLocaleDateString w 0),
         Lit ''Order Summary:'']
        @ concat (map customer_item (items' req))
        @ [Lit ''Total: $'', Fixed (total req) 2,
           Lit ''Shipping Information: Address:'', Str (replace_commas (shippingAddress req)),
           Lit ''Shipping Information:''],
      text' = None\<rparr>\<close>

definition adminMailOptions :: "env \<Rightarrow> world \<Rightarrow> SendReceiptRequest \<Rightarrow> MailOptions" where
  \<open>adminMailOptions e w req =
     \<lparr>from' = [Lit ''"Adisa Olashile Orders" <'', Str (interpolate (EMAIL_USER e)), Lit ''>''],
      to' = adminEmail e,
      subject' = [Lit '' New Order Received - '', Str (orderId req)],
      replyTo = None,
      html =
        [Lit ''Order ID:'', Str (orderId req),
         Lit ''Customer:'', Str (customerName req), Lit '' ('', Str (customerEmail' req),
         Lit '') Total: $'', Fixed (total req) 2,
         Lit ''Order Date:'', Str (toLocaleString w 1),
         Lit ''Shipping Address:'', Str (replace_commas (shippingAddress req)),
         Lit ''Order Items ('', Num (of_nat (length (items' req))),
         Lit ''):'']
        @ concat (map admin_item (items' req))
        @ [Lit ''Action Required: Process this order within 24 hours.''],
      text' = None\<rparr>\<close>

text \<open>The \<^verbatim>\<open>catch\<close> block of the receipt handler.\<close>

definition receipt_failure :: "thrown \<Rightarrow> response" where
  "receipt_failure error =
     \<lparr>status = 500, body = JObject [(''error'', JString (errorMessage error))]\<rparr>"

definition receipt_success :: "SendReceiptRequest \<Rightarrow> response" where
  "receipt_success req =
     \<lparr>status = 200,
      body = JObject
        [(''success'', JBool True),
         (''message'', JString ''Receipts sent successfully''),
         (''orderId'', JString (orderId req))]\<rparr>"

text \<open>\<^verbatim>\<open>app.post('/send-receipt', ...)\<close>\<close>

definition send_receipt :: "env \<Rightarrow> world \<Rightarrow> SendReceiptRequest \<Rightarrow> response \<times> call list" where
  "send_receipt e w req =
     (if \<not> truthy (EMAIL_USER e) \<or> \<not> truthy (EMAIL_PASS e)
      then (receipt_failure (Error ''Email configuration is missing''), [])
      else
        (case sendMail w 0 (customerMailOptions e w req) of
           Some error \<Rightarrow> (receipt_failure error, [SendMail (customerMailOptions e w req)])
         | None \<Rightarrow>
             (case sendMail w 1 (adminMailOptions e w req) of
                Some error \<Rightarrow>
                  (receipt_failure error,
                   [SendMail (customerMailOptions e w req), SendMail (adminMailOptions e w req)])
              | None \<Rightarrow>
                  (receipt_success req,
                   [SendMail (customerMailOptions e w req), SendMail (adminMailOptions e w req)]))))"


section \<open>Example requests and collaborators\<close>

definition example_session :: Session where
  "example_session =
     \<lparr>id' = ''cs_test_a1'',
      url = Some ''https://checkout.example/pay/cs_test_a1'',
      payment_status = ''unpaid'',
      amount_total = Some 15100,
      customer_email' = Some ''ada@example.com'',
      metadata' = Some [(''items_count'', ''1'')]\<rparr>"

text \<open>Collaborators that answer every call.\<close>

definition all_up :: world where
  "all_up =
     \<lparr>verify = None,
      sendMail = (\<lambda>k m. None),
      sessions_create = (\<lambda>p. Inr example_session),
      sessions_retrieve = (\<lambda>s x. Inr example_session),
      toLocaleString = (\<lambda>k. ''02/11/2026, 10:00:00''),
      toLocaleDateString = (\<lambda>k. ''Monday 2 November 2026'')\<rparr>"

text \<open>Collaborators whose every call throws \<open>t\<close>.\<close>

definition all_down :: "thrown \<Rightarrow> world" where
  "all_down t =
     \<lparr>verify = Some t,
      sendMail = (\<lambda>k m. Some t),
      sessions_create = (\<lambda>p. Inl t),
      sessions_retrieve = (\<lambda>s x. Inl t),
      toLocaleString = (\<lambda>k. ''02/11/2026, 10:00:00''),
      toLocaleDateString = (\<lambda>k. ''Monday 2 November 2026'')\<rparr>"

text \<open>A transport that verifies and then throws \<open>t\<close> on the \<open>n\<close>-th send.\<close>

definition send_fails_at :: "nat \<Rightarrow> thrown \<Rightarrow> world" where
  "send_fails_at n t = all_up\<lparr>sendMail := (\<lambda>k m. if k = n then Some t else None)\<rparr>"

definition mail_env :: env where
  "mail_env =
     \<lparr>EMAIL_USER = Some ''info@adisaolashile.com'',
      EMAIL_PASS = Some ''secret'',
      ADMIN_EMAIL = Some ''owner@adisaolashile.com''\<rparr>"

definition painting_A :: CartItem where
  "painting_A = \<lparr>title = ''Painting A'', price = 100, quantity = 1\<rparr>"

definition checkout_NGN :: CreateCheckoutSessionRequest where
  "checkout_NGN =
     \<lparr>items = [painting_A],
      customerEmail = ''ada@example.com'',
      successUrl = ''https://shop.example/success'',
      cancelUrl = ''https://shop.example/cancel'',
      currency = ''NGN'',
      currencyMultiplier = 1\<rparr>"

text \<open>The double nearest to 0.35.\<close>

definition double_0_35 :: rat where
  "double_0_35 = 3152519739159347 / 9007199254740992"

definition checkout_1_005 :: CreateCheckoutSessionRequest where
  "checkout_1_005 =
     checkout_NGN\<lparr>items := [painting_A\<lparr>price := 1005 / 1000\<rparr>],
                  currency := ''USD'', currencyMultiplier := 100\<rparr>"

definition checkout_0_35 :: CreateCheckoutSessionRequest where
  "checkout_0_35 =
     checkout_NGN\<lparr>items := [painting_A\<lparr>price := double_0_35\<rparr>],
                  currency := ''USD'', currencyMultiplier := 10\<rparr>"

definition contact_ada :: ContactFormRequest where
  "contact_ada =
     \<lparr>name = Some ''Ada'',
      email = Some ''ada@example.com'',
      subject = Some ''Commission'',
      message = Some ''Do you take commissions?''\<rparr>"

definition receipt_ada :: SendReceiptRequest where
  "receipt_ada =
     \<lparr>customerEmail' = ''ada@example.com'',
      orderId = ''ORD-1'',
      items' = [\<lparr>title = ''Painting A'', price = 1999 / 100, quantity = 3\<rparr>],
      total = 1,
      customerName = ''Ada'',
      shippingAddress = ''1 High Street, Lagos''\<rparr>"

section \<open>Number values\<close>

lemma bit_length_bounds:
  "0 < n \<Longrightarrow> 1 \<le> bit_length n \<and> 2 ^ nat (bit_length n - 1) \<le> n \<and> n < 2 ^ nat (bit_length n)"
proof (induction n rule: bit_length.induct)
  case (1 n)
  show ?case
  proof (cases "n div 2 = 0")
    case True
    with \<open>0 < n\<close> have "n = 1" by presburger
    then show ?thesis by (simp add: bit_length.simps)
  next
    case False
    with \<open>0 < n\<close> have pos: "0 < n div 2" by presburger
    from "1.IH" \<open>0 < n\<close> pos
    have ih: "1 \<le> bit_length (n div 2)" "2 ^ nat (bit_length (n div 2) - 1) \<le> n div 2"
      "n div 2 < 2 ^ nat (bit_length (n div 2))"
      by simp_all
    have b: "bit_length n = 1 + bit_length (n div 2)"
      using \<open>0 < n\<close> by (subst bit_length.simps) simp
    have e1: "nat (bit_length n - 1) = Suc (nat (bit_length (n div 2) - 1))"
      using b ih(1) by simp
    have e2: "nat (bit_length n) = Suc (nat (bit_length (n div 2)))"
      using b ih(1) by simp
    have "2 * (n div 2) \<le> n" "n < 2 * (n div 2 + 1)" by presburger+
    with ih show ?thesis unfolding e1 e2 using b by simp
  qed
qed

lemma exponent_bounds:
  assumes "0 < x"
  shows "2 powi exponent x \<le> x \<and> x < 2 powi (exponent x + 1)"
proof -
  obtain p q where pq: "quotient_of x = (p, q)" by (cases "quotient_of x")
  have q: "0 < q" using quotient_of_denom_pos [OF pq] .
  have x: "x = of_int p / of_int q" using quotient_of_div [OF pq] .
  have p: "0 < p" using assms x q by (simp add: zero_less_divide_iff)
  define bp where "bp = bit_length p"
  define bq where "bq = bit_length q"
  from bit_length_bounds [OF p] have bp: "1 \<le> bp" "2 ^ nat (bp - 1) \<le> p" "p < 2 ^ nat bp"
    by (simp_all add: bp_def)
  from bit_length_bounds [OF q] have bq: "1 \<le> bq" "2 ^ nat (bq - 1) \<le> q" "q < 2 ^ nat bq"
    by (simp_all add: bq_def)
  have P: "(2::rat) powi (bp - 1) \<le> of_int p" "of_int p < (2::rat) powi bp"
  proof -
    have "(of_int (2 ^ nat (bp - 1)) :: rat) \<le> of_int p" using bp(2) by (simp only: of_int_le_iff)
    then show "(2::rat) powi (bp - 1) \<le> of_int p" using bp(1) by (simp add: power_int_def)
    have "(of_int p :: rat) < of_int (2 ^ nat bp)" using bp(3) by (simp only: of_int_less_iff)
    then show "of_int p < (2::rat) powi bp" using bp(1) by (simp add: power_int_def)
  qed
  have Q: "(2::rat) powi (bq - 1) \<le> of_int q" "of_int q < (2::rat) powi bq"
  proof -
    have "(of_int (2 ^ nat (bq - 1)) :: rat) \<le> of_int q" using bq(2) by (simp only: of_int_le_iff)
    then show "(2::rat) powi (bq - 1) \<le> of_int q" using bq(1) by (simp add: power_int_def)
    have "(of_int q :: rat) < of_int (2 ^ nat bq)" using bq(3) by (simp only: of_int_less_iff)
    then show "of_int q < (2::rat) powi bq" using bq(1) by (simp add: power_int_def)
  qed
  have qpos: "(0::rat) < of_int q" using q by simp
  have up: "x < (2::rat) powi (bp - bq + 1)"
  proof -
    have "x * of_int q = of_int p" using x qpos by simp
    also have "\<dots> < (2::rat) powi bp" by (rule P(2))
    also have "\<dots> = 2 powi (bp - bq + 1) * 2 powi (bq - 1)"
      by (simp flip: power_int_add)
    also have "\<dots> \<le> 2 powi (bp - bq + 1) * of_int q"
      using Q(1) by (intro mult_left_mono) simp_all
    finally show ?thesis using qpos by simp
  qed
  have lo: "(2::rat) powi (bp - bq - 1) < x"
  proof -
    have "(2::rat) powi (bp - bq - 1) * of_int q < 2 powi (bp - bq - 1) * 2 powi bq"
      using Q(2) by (intro mult_strict_left_mono) simp_all
    also have "\<dots> = 2 powi (bp - 1)"
      by (simp flip: power_int_add)
    also have "\<dots> \<le> of_int p" by (rule P(1))
    also have "\<dots> = x * of_int q" using x qpos by simp
    finally show ?thesis using qpos by simp
  qed
  have e: "exponent x = (if 2 powi (bp - bq) \<le> x then bp - bq else bp - bq - 1)"
    by (simp add: exponent_def pq bp_def bq_def)
  show ?thesis
  proof (cases "2 powi (bp - bq) \<le> x")
    case True
    with e up show ?thesis by simp
  next
    case False
    with e lo show ?thesis by simp
  qed
qed

lemma power_int_2_less_imp: "(2::rat) powi a < 2 powi b \<Longrightarrow> a < b"
proof (rule ccontr)
  assume l: "(2::rat) powi a < 2 powi b" and "\<not> a < b"
  then have "b \<le> a" by simp
  then have "(2::rat) powi b \<le> 2 powi a" by (intro power_int_increasing) simp_all
  with l show False by simp
qed

lemma exponent_unique:
  assumes "0 < x" "2 powi e \<le> x" "x < 2 powi (e + 1)"
  shows "exponent x = e"
proof -
  from exponent_bounds [OF assms(1)]
  have b: "2 powi exponent x \<le> x" "x < 2 powi (exponent x + 1)" by simp_all
  have "(2::rat) powi e < 2 powi (exponent x + 1)" using assms(2) b(2) by simp
  then have 1: "e < exponent x + 1" by (rule power_int_2_less_imp)
  have "(2::rat) powi exponent x < 2 powi (e + 1)" using assms(3) b(1) by simp
  then have 2: "exponent x < e + 1" by (rule power_int_2_less_imp)
  from 1 2 show ?thesis by simp
qed

lemma round_half_even_near:
  assumes "\<bar>x - of_int m\<bar> < 1 / 2"
  shows "round_half_even x = m"
proof (cases "of_int m \<le> x")
  case True
  with assms have "\<lfloor>x\<rfloor> = m" by (simp add: floor_eq_iff)
  with assms True show ?thesis by (simp add: round_half_even_def)
next
  case False
  with assms have f: "\<lfloor>x\<rfloor> = m - 1" by (simp add: floor_eq_iff)
  with assms False show ?thesis by (simp add: round_half_even_def)
qed

lemma round_half_even_tie:
  assumes "\<bar>x - of_int m\<bar> = 1 / 2" "even m"
  shows "round_half_even x = m"
proof (cases "of_int m \<le> x")
  case True
  with assms have "\<lfloor>x\<rfloor> = m" by (simp add: floor_eq_iff)
  with assms True show ?thesis by (simp add: round_half_even_def)
next
  case False
  with assms have f: "\<lfloor>x\<rfloor> = m - 1" by (simp add: floor_eq_iff)
  with assms False show ?thesis by (simp add: round_half_even_def)
qed

text \<open>
  The value of \<open>double x\<close> from its exponent \<open>e\<close> and the integer \<open>m\<close> nearest to
  \<open>x\<close> in units of \<open>2 powi (e - 52)\<close>.
\<close>

lemma double_nearest:
  assumes "x \<noteq> 0" "2 powi e \<le> \<bar>x\<bar>" "\<bar>x\<bar> < 2 powi (e + 1)" "- 1022 \<le> e"
    and "\<bar>x / 2 powi (e - 52) - of_int m\<bar> < 1 / 2 \<or>
         \<bar>x / 2 powi (e - 52) - of_int m\<bar> = 1 / 2 \<and> even m"
    and "\<bar>of_int m * 2 powi (e - 52)\<bar> < (2::rat) ^ 1024"
  shows "double x = Finite (of_int m * 2 powi (e - 52))"
proof -
  have "exponent \<bar>x\<bar> = e"
    using assms(1-3) by (intro exponent_unique) simp_all
  moreover have "round_half_even (x / 2 powi (e - 52)) = m"
    using assms(5) round_half_even_near round_half_even_tie by blast
  ultimately show ?thesis
    using assms(1,4,6) by (simp add: double_def Let_def max_def)
qed

text \<open>An integer below \<open>2 ^ 53\<close> in absolute value is its own Number value.\<close>

lemma double_of_int:
  assumes "\<bar>n\<bar> < 2 ^ 53"
  shows "double (of_int n) = Finite (of_int n)"
proof (cases "n = 0")
  case True
  then show ?thesis by (simp add: double_def)
next
  case False
  define x :: rat where "x = of_int n"
  define e where "e = exponent \<bar>x\<bar>"
  have x0: "x \<noteq> 0" and x1: "1 \<le> \<bar>x\<bar>" using False by (simp_all add: x_def)
  have x53: "\<bar>x\<bar> < 2 powi 53"
  proof -
    have "\<bar>x\<bar> = of_int \<bar>n\<bar>" by (simp add: x_def)
    also have "\<dots> < of_int (2 ^ 53)" using assms by (simp only: of_int_less_iff)
    finally show ?thesis by simp
  qed
  from exponent_bounds [of "\<bar>x\<bar>"] x0
  have b: "2 powi e \<le> \<bar>x\<bar>" "\<bar>x\<bar> < 2 powi (e + 1)" by (simp_all add: e_def)
  have "(2::rat) powi 0 < 2 powi (e + 1)" using x1 b(2) by simp
  then have "0 < e + 1" by (rule power_int_2_less_imp)
  then have e0: "0 \<le> e" by simp
  have "(2::rat) powi e < 2 powi 53" using b(1) x53 by simp
  then have "e < 53" by (rule power_int_2_less_imp)
  then have e52: "e \<le> 52" by simp
  define k where "k = nat (52 - e)"
  have u: "(2::rat) powi (e - 52) = 1 / 2 ^ k"
    using e52 by (simp add: power_int_def k_def field_simps)
  have m: "x / 2 powi (e - 52) = of_int (n * 2 ^ k)"
    by (simp add: u x_def)
  have r: "of_int (n * 2 ^ k) * (2::rat) powi (e - 52) = x"
    by (simp add: u x_def)
  have big: "\<bar>x\<bar> < 2 ^ 1024"
  proof -
    have "\<bar>x\<bar> < 2 ^ 53" using x53 by simp
    also have "(2::rat) ^ 53 \<le> 2 ^ 1024" by (intro power_increasing) simp_all
    finally show ?thesis .
  qed
  have "double x = Finite (of_int (n * 2 ^ k) * 2 powi (e - 52))"
    using x0 b e0 big by (intro double_nearest) (simp_all only: m r, simp_all)
  then show ?thesis by (simp only: r) (simp add: x_def)
qed

lemma Math_round_of_int: "Math_round (Finite (of_int k)) = Finite (of_int k)"
  by (simp add: floor_eq_iff)

lemma integer_product_exact:
  assumes "\<bar>a\<bar> < 2 ^ 53" "\<bar>b\<bar> < 2 ^ 53" "\<bar>a * b\<bar> < 2 ^ 53"
  shows "Math_round (multiply (double (of_int a)) (double (of_int b))) = Finite (of_int (a * b))"
proof -
  have "multiply (double (of_int a)) (double (of_int b)) = double (of_int (a * b))"
    using assms(1,2) by (simp add: double_of_int)
  also have "\<dots> = Finite (of_int (a * b))"
    using assms(3) by (rule double_of_int)
  finally show ?thesis by (simp only: Math_round_of_int)
qed

lemma Math_round_nonneg:
  "0 \<le> x \<Longrightarrow> Math_round (Finite x) = Finite (of_int (round_half_away_from_zero x))"
  by (simp add: round_half_away_from_zero_def)

text \<open>The Number values of the decimals 1.005, 0.35, 7.9 and 0.0021, and four products.\<close>

lemma double_1_005: "double (1005 / 1000) = Finite (1131529406376837 / 1125899906842624)"
  using double_nearest [of "1005 / 1000" 0 4526117625507348] by simp

lemma product_1_005_100:
  "double (1131529406376837 / 1125899906842624 * 100) = Finite (7072058789855231 / 70368744177664)"
  using double_nearest [of "1131529406376837 / 1125899906842624 * 100" 6 7072058789855231] by simp

lemma double_double_0_35: "double double_0_35 = Finite double_0_35"
  using double_nearest [of "3152519739159347 / 9007199254740992" "- 2" 6305039478318694]
  by (simp add: double_0_35_def)

lemma double_0_35: "double (35 / 100) = Finite double_0_35"
  using double_nearest [of "35 / 100" "- 2" 6305039478318694]
  by (simp add: double_0_35_def)

lemma product_0_35_10: "double (double_0_35 * 10) = Finite (7 / 2)"
  using double_nearest [of "3152519739159347 / 9007199254740992 * 10" 1 7881299347898368]
  by (simp add: double_0_35_def)

lemma double_7_9: "double (79 / 10) = Finite (4447304632028365 / 562949953421312)"
  using double_nearest [of "79 / 10" 2 8894609264056730] by simp

lemma product_7_9_100: "double (4447304632028365 / 562949953421312 * 100) = Finite 790"
  using double_nearest [of "4447304632028365 / 562949953421312 * 100" 9 6948913487544320] by simp

lemma double_0_0021: "double (21 / 10000) = Finite (4842270319348757 / 2305843009213693952)"
  using double_nearest [of "21 / 10000" "- 9" 4842270319348757] by simp

lemma product_15000_0_0021:
  "double (15000 * (4842270319348757 / 2305843009213693952)) =
     Finite (8866461766385663 / 281474976710656)"
  using double_nearest [of "15000 * (4842270319348757 / 2305843009213693952)" 4 8866461766385663]
  by simp

lemma double_integers:
  "double 1 = Finite 1" "double 10 = Finite 10" "double 100 = Finite 100"
  "double 15000 = Finite 15000"
  using double_of_int [of 1] double_of_int [of 10] double_of_int [of 100] double_of_int [of 15000]
  by simp_all

section \<open>Checkout: currency, line items, amounts, shipping\<close>

lemma stripeCurrency_supported: "stripeCurrency req \<in> set supportedCurrencies"
  by (simp add: stripeCurrency_def supportedCurrencies_def)

lemma stripeCurrency_unsupported:
  "currency req \<notin> set supportedCurrencies \<Longrightarrow> stripeCurrency req = ''USD''"
  by (simp add: stripeCurrency_def)

lemma length_lineItems: "length (lineItems req) = length (items req) + 1"
  by (simp add: lineItems_def)

lemma lineItems_nth:
  "i < length (items req) \<Longrightarrow> lineItems req ! i = itemLine req (items req ! i)"
  by (simp add: lineItems_def nth_append)

lemma lineItems_shipping: "lineItems req ! length (items req) = shippingLine req"
  by (simp add: lineItems_def nth_append)

lemma line_items_sessionParams: "line_items (sessionParams req) = lineItems req"
  by (simp add: sessionParams_def)

lemma checkout_calls:
  "snd (create_checkout_session w req) = [SessionsCreate (sessionParams req)]"
  by (simp add: create_checkout_session_def split: sum.split)

lemma checkout_answered:
  "sessions_create w (sessionParams req) = Inr s \<Longrightarrow>
   fst (create_checkout_session w req) =
     \<lparr>status = 200, body = JObject [(''id'', JString (id' s)), (''url'', json_opt_string (url s))]\<rparr>"
  by (simp add: create_checkout_session_def)

lemma checkout_thrown:
  "sessions_create w (sessionParams req) = Inl t \<Longrightarrow>
   fst (create_checkout_session w req) =
     \<lparr>status = 500, body = JObject [(''error'', JString (errorMessage t))]\<rparr>"
  by (simp add: create_checkout_session_def)

text \<open>
  C1. A request whose currency is none of USD, GBP, EUR, CAD, AUD, NGN is not refused:
  the handler makes its one gateway call, every line item of that call is priced in USD,
  and when the gateway answers with a session the response is the 200 with the session's
  id and url.
\<close>

theorem unsupported_currency_falls_back_to_USD:
  assumes "currency req \<notin> {''USD'', ''GBP'', ''EUR'', ''CAD'', ''AUD'', ''NGN''}"
  shows "snd (create_checkout_session w req) = [SessionsCreate (sessionParams req)] \<and>
         (\<forall>li \<in> set (line_items (sessionParams req)). currency' (price_data li) = ''USD'') \<and>
         (\<forall>s. sessions_create w (sessionParams req) = Inr s \<longrightarrow>
              fst (create_checkout_session w req) =
                \<lparr>status = 200,
                 body = JObject [(''id'', JString (id' s)), (''url'', json_opt_string (url s))]\<rparr>)"
proof -
  from assms have usd: "stripeCurrency req = ''USD''"
    by (simp add: stripeCurrency_unsupported supportedCurrencies_def)
  have "\<forall>li \<in> set (lineItems req). currency' (price_data li) = ''USD''"
    by (auto simp: lineItems_def itemLine_def shippingLine_def usd)
  then show ?thesis
    by (simp add: checkout_calls checkout_answered line_items_sessionParams)
qed

theorem unsupported_currency_falls_back_to_USD_witness:
  "currency (checkout_NGN\<lparr>currency := ''JPY''\<rparr>) \<notin> {''USD'', ''GBP'', ''EUR'', ''CAD'', ''AUD'', ''NGN''} \<and>
   map (\<lambda>li. currency' (price_data li)) (line_items (sessionParams (checkout_NGN\<lparr>currency := ''JPY''\<rparr>)))
     = [''USD'', ''USD''] \<and>
   status (fst (create_checkout_session all_up (checkout_NGN\<lparr>currency := ''JPY''\<rparr>))) = 200"
  using unsupported_currency_falls_back_to_USD [of "checkout_NGN\<lparr>currency := ''JPY''\<rparr>" all_up]
  by (simp add: checkout_NGN_def all_up_def sessionParams_def lineItems_def)

text \<open>
  C2. The gateway call carries one line item per cart item and one more: line \<open>i\<close> has the
  title and the quantity of cart item \<open>i\<close>, and the line after the last cart item is
  the shipping line, named Shipping, with quantity 1.
\<close>

theorem line_items_are_cart_items_then_shipping:
  "snd (create_checkout_session w req) = [SessionsCreate (sessionParams req)] \<and>
   length (line_items (sessionParams req)) = length (items req) + 1 \<and>
   (\<forall>i < length (items req).
      name' (product_data (price_data (line_items (sessionParams req) ! i))) = title (items req ! i) \<and>
      quantity' (line_items (sessionParams req) ! i) = quantity (items req ! i)) \<and>
   line_items (sessionParams req) ! length (items req) = shippingLine req \<and>
   name' (product_data (price_data (shippingLine req))) = ''Shipping'' \<and>
   quantity' (shippingLine req) = 1"
proof -
  have "\<forall>i < length (items req).
          name' (product_data (price_data (lineItems req ! i))) = title (items req ! i) \<and>
          quantity' (lineItems req ! i) = quantity (items req ! i)"
    by (simp add: lineItems_nth itemLine_def)
  moreover have "name' (product_data (price_data (shippingLine req))) = ''Shipping''"
    and "quantity' (shippingLine req) = 1"
    by (simp_all add: shippingLine_def)
  ultimately show ?thesis
    by (simp add: checkout_calls line_items_sessionParams length_lineItems lineItems_shipping)
qed

theorem line_items_are_cart_items_then_shipping_witness:
  "length (line_items (sessionParams checkout_NGN)) = 2 \<and>
   (0::nat) < length (items checkout_NGN) \<and>
   name' (product_data (price_data (line_items (sessionParams checkout_NGN) ! 0))) = ''Painting A'' \<and>
   quantity' (line_items (sessionParams checkout_NGN) ! 0) = 1 \<and>
   name' (product_data (price_data (line_items (sessionParams checkout_NGN) ! 1))) = ''Shipping'' \<and>
   quantity' (line_items (sessionParams checkout_NGN) ! 1) = 1"
  using line_items_are_cart_items_then_shipping [of all_up checkout_NGN]
  by (simp add: checkout_NGN_def painting_A_def)

lemma itemLine_amount:
  "unit_amount (price_data (itemLine req item)) =
     Math_round (multiply (double (price item)) (double (currencyMultiplier req)))"
  by (simp add: itemLine_def)

lemma shippingLine_amount:
  "unit_amount (price_data (shippingLine req)) =
     Math_round (multiply (double (shippingAmount req)) (double (currencyMultiplier req)))"
  by (simp add: shippingLine_def)

text \<open>
  C3, as the claim has it, fails: the handler rounds the Number value of the product,
  not the product. With price 1.005 and multiplier 100 the line amount is 100, while
  the product is 100.5 and rounds to 101. With a price that is itself a Number value,
  the one nearest to 0.35, and multiplier 10, the line amount is 4, while the product is
  below 3.5 and rounds to 3.
\<close>

theorem amount_is_not_the_rounded_exact_product:
  "unit_amount (price_data (line_items (sessionParams checkout_1_005) ! 0)) = Finite 100 \<and>
   round_half_away_from_zero
     (price (items checkout_1_005 ! 0) * currencyMultiplier checkout_1_005) = 101 \<and>
   double (price (items checkout_0_35 ! 0)) = Finite (price (items checkout_0_35 ! 0)) \<and>
   double (currencyMultiplier checkout_0_35) = Finite (currencyMultiplier checkout_0_35) \<and>
   unit_amount (price_data (line_items (sessionParams checkout_0_35) ! 0)) = Finite 4 \<and>
   round_half_away_from_zero
     (price (items checkout_0_35 ! 0) * currencyMultiplier checkout_0_35) = 3"
proof -
  have i1: "items checkout_1_005 = [painting_A\<lparr>price := 1005 / 1000\<rparr>]"
    "currencyMultiplier checkout_1_005 = 100"
    by (simp_all add: checkout_1_005_def)
  have i2: "items checkout_0_35 = [painting_A\<lparr>price := double_0_35\<rparr>]"
    "currencyMultiplier checkout_0_35 = 10"
    by (simp_all add: checkout_0_35_def)
  have a1: "unit_amount (price_data (line_items (sessionParams checkout_1_005) ! 0)) = Finite 100"
    using double_1_005 double_integers product_1_005_100
    by (simp add: line_items_sessionParams lineItems_def itemLine_amount i1 floor_eq_iff)
  have a2: "unit_amount (price_data (line_items (sessionParams checkout_0_35) ! 0)) = Finite 4"
    using double_double_0_35 double_integers product_0_35_10
    by (simp add: line_items_sessionParams lineItems_def itemLine_amount i2 floor_eq_iff)
  have r1: "round_half_away_from_zero (1005 / 1000 * 100) = 101"
    by (simp add: round_half_away_from_zero_def floor_eq_iff)
  have r2: "round_half_away_from_zero (double_0_35 * 10) = 3"
    by (simp add: round_half_away_from_zero_def double_0_35_def floor_eq_iff)
  show ?thesis
    using a1 a2 r1 r2 double_double_0_35 double_integers by (simp add: i1 i2)
qed

text \<open>
  C3, amended. The amount of line \<open>i\<close> is \<^verbatim>\<open>Math.round\<close> of the product of the item's
  price and the multiplier, and the amount of the shipping line is \<^verbatim>\<open>Math.round\<close> of
  the product of the shipping rate and the multiplier, where the product is that of
  IEEE 754 double precision: the Number value nearest to the exact product of the two
  Number values. \<^verbatim>\<open>Math.round\<close> is rounding half away from zero on every number that is
  not negative. When the two factors and their exact product are integers below
  \<open>2 ^ 53\<close> in absolute value, the amount is that product. For the cart of one
  Painting A at 100, in NGN with multiplier 1, the two amounts are 100 and 15000.
\<close>

theorem amounts_round_the_double_product:
  "(\<forall>i < length (items req).
      unit_amount (price_data (line_items (sessionParams req) ! i)) =
        Math_round (multiply (double (price (items req ! i))) (double (currencyMultiplier req)))) \<and>
   unit_amount (price_data (line_items (sessionParams req) ! length (items req))) =
     Math_round (multiply (double (shippingAmount req)) (double (currencyMultiplier req))) \<and>
   multiply (Finite a) (Finite b) = double (a * b) \<and>
   (\<forall>x \<ge> 0. Math_round (Finite x) = Finite (of_int (round_half_away_from_zero x))) \<and>
   (\<bar>m\<bar> < 2 ^ 53 \<and> \<bar>n\<bar> < 2 ^ 53 \<and> \<bar>m * n\<bar> < 2 ^ 53 \<longrightarrow>
      Math_round (multiply (double (of_int m)) (double (of_int n))) = Finite (of_int (m * n))) \<and>
   map (\<lambda>li. unit_amount (price_data li))
     (line_items (sessionParams
        (req\<lparr>items := [\<lparr>title = ''Painting A'', price = 100, quantity = 1\<rparr>],
             currency := ''NGN'', currencyMultiplier := 1\<rparr>))) = [Finite 100, Finite 15000]"
proof -
  have items: "\<forall>i < length (items req).
          unit_amount (price_data (lineItems req ! i)) =
            Math_round (multiply (double (price (items req ! i))) (double (currencyMultiplier req)))"
    by (simp add: lineItems_nth itemLine_amount)
  have shipping: "unit_amount (price_data (lineItems req ! length (items req))) =
      Math_round (multiply (double (shippingAmount req)) (double (currencyMultiplier req)))"
    by (simp add: lineItems_shipping shippingLine_amount)
  have p1: "Math_round (multiply (double 100) (double 1)) = Finite 100"
    using integer_product_exact [of 100 1] by simp
  have p2: "Math_round (multiply (double 15000) (double 1)) = Finite 15000"
    using integer_product_exact [of 15000 1] by simp
  have example: "map (\<lambda>li. unit_amount (price_data li))
     (lineItems (req\<lparr>items := [\<lparr>title = ''Painting A'', price = 100, quantity = 1\<rparr>],
             currency := ''NGN'', currencyMultiplier := 1\<rparr>)) = [Finite 100, Finite 15000]"
    by (simp add: lineItems_def itemLine_amount shippingLine_amount shippingAmount_def
        shippingRates_def stripeCurrency_def supportedCurrencies_def p1 p2)
  have exact: "Math_round (multiply (double (of_int m)) (double (of_int n))) = Finite (of_int (m * n))"
    if "\<bar>m\<bar> < 2 ^ 53" "\<bar>n\<bar> < 2 ^ 53" "\<bar>m * n\<bar> < 2 ^ 53"
    using that by (rule integer_product_exact)
  from items shipping example exact Math_round_nonneg show ?thesis
    by (simp add: line_items_sessionParams)
qed

theorem amounts_round_the_double_product_witness:
  "(0::nat) < length (items (checkout_NGN\<lparr>currency := ''GBP'', currencyMultiplier := 100\<rparr>)) \<and>
   unit_amount (price_data (line_items (sessionParams
      (checkout_NGN\<lparr>currency := ''GBP'', currencyMultiplier := 100\<rparr>)) ! 0)) = Finite 10000 \<and>
   unit_amount (price_data (line_items (sessionParams
      (checkout_NGN\<lparr>currency := ''GBP'', currencyMultiplier := 100\<rparr>)) ! 1)) = Finite 790 \<and>
   unit_amount (price_data (line_items (sessionParams
      (checkout_NGN\<lparr>currencyMultiplier := 21 / 10000\<rparr>)) ! 1)) = Finite 31 \<and>
   (0::rat) \<le> 5 / 2 \<and> Math_round (Finite (5 / 2)) = Finite 3 \<and>
   round_half_away_from_zero (5 / 2) = 3 \<and>
   \<bar>100 :: int\<bar> < 2 ^ 53 \<and> \<bar>100 * 100 :: int\<bar> < 2 ^ 53 \<and>
   Math_round (multiply (double 100) (double 100)) = Finite 10000"
proof -
  note gbp = amounts_round_the_double_product
    [of "checkout_NGN\<lparr>currency := ''GBP'', currencyMultiplier := 100\<rparr>" 0 0 100 100]
  note ngn = amounts_round_the_double_product
    [of "checkout_NGN\<lparr>currencyMultiplier := 21 / 10000\<rparr>" 0 0 100 100]
  have i: "items (checkout_NGN\<lparr>currency := ''GBP'', currencyMultiplier := 100\<rparr>) = [painting_A]"
    "currencyMultiplier (checkout_NGN\<lparr>currency := ''GBP'', currencyMultiplier := 100\<rparr>) = 100"
    "shippingAmount (checkout_NGN\<lparr>currency := ''GBP'', currencyMultiplier := 100\<rparr>) = 79 / 10"
    "items (checkout_NGN\<lparr>currencyMultiplier := 21 / 10000\<rparr>) = [painting_A]"
    "currencyMultiplier (checkout_NGN\<lparr>currencyMultiplier := 21 / 10000\<rparr>) = 21 / 10000"
    "shippingAmount (checkout_NGN\<lparr>currencyMultiplier := 21 / 10000\<rparr>) = 15000"
    "price painting_A = 100"
    by (simp_all add: checkout_NGN_def painting_A_def shippingAmount_def shippingRates_def
        stripeCurrency_def supportedCurrencies_def)
  have m: "Math_round (Finite (5 / 2)) = Finite 3" "Math_round (Finite 790) = Finite 790"
    "Math_round (Finite (8866461766385663 / 281474976710656)) = Finite 31"
    "round_half_away_from_zero (5 / 2) = 3"
    by (simp_all add: round_half_away_from_zero_def floor_eq_iff)
  have item: "unit_amount (price_data (line_items (sessionParams
      (checkout_NGN\<lparr>currency := ''GBP'', currencyMultiplier := 100\<rparr>)) ! 0)) = Finite 10000"
    using gbp [THEN conjunct1] gbp [THEN conjunct2, THEN conjunct2, THEN conjunct2, THEN conjunct2,
      THEN conjunct1]
    by (simp add: i)
  have pounds: "unit_amount (price_data (line_items (sessionParams
      (checkout_NGN\<lparr>currency := ''GBP'', currencyMultiplier := 100\<rparr>)) ! 1)) = Finite 790"
    using gbp [THEN conjunct2, THEN conjunct1] double_7_9 double_integers product_7_9_100 m
    by (simp add: i)
  have naira: "unit_amount (price_data (line_items (sessionParams
      (checkout_NGN\<lparr>currencyMultiplier := 21 / 10000\<rparr>)) ! 1)) = Finite 31"
    using ngn [THEN conjunct2, THEN conjunct1] double_0_0021 double_integers
      product_15000_0_0021 m
    by (simp add: i)
  have square: "Math_round (multiply (double 100) (double 100)) = Finite 10000"
    using gbp [THEN conjunct2, THEN conjunct2, THEN conjunct2, THEN conjunct2, THEN conjunct1]
    by simp
  show ?thesis
    using item pounds naira square m by (simp add: i)
qed

text \<open>
  C4. The shipping rate is read off the effective currency: 10 for USD, 7.9 for GBP,
  15000 for NGN and 10 for every other one. The effective currency is always one of the
  six supported ones, so the last case is that of EUR, CAD and AUD.
\<close>

theorem shipping_rate_by_effective_currency:
  "shippingAmount req =
     (if stripeCurrency req = ''USD'' then 10
      else if stripeCurrency req = ''GBP'' then 79 / 10
      else if stripeCurrency req = ''NGN'' then 15000
      else 10) \<and>
   stripeCurrency req \<in> {''USD'', ''GBP'', ''EUR'', ''CAD'', ''AUD'', ''NGN''} \<and>
   (stripeCurrency req \<in> {''EUR'', ''CAD'', ''AUD''} \<longrightarrow> shippingAmount req = 10)"
proof -
  have "stripeCurrency req \<in> {''USD'', ''GBP'', ''EUR'', ''CAD'', ''AUD'', ''NGN''}"
    using stripeCurrency_supported [of req] by (simp add: supportedCurrencies_def)
  moreover have "stripeCurrency req \<in> {''EUR'', ''CAD'', ''AUD''} \<longrightarrow> shippingAmount req = 10"
    by (auto simp: shippingAmount_def shippingRates_def)
  ultimately show ?thesis
    by (simp add: shippingAmount_def shippingRates_def)
qed

theorem shipping_rate_by_effective_currency_witness:
  "stripeCurrency (checkout_NGN\<lparr>currency := ''EUR''\<rparr>) \<in> {''EUR'', ''CAD'', ''AUD''} \<and>
   shippingAmount (checkout_NGN\<lparr>currency := ''EUR''\<rparr>) = 10 \<and>
   shippingAmount (checkout_NGN\<lparr>currency := ''GBP''\<rparr>) = 79 / 10 \<and>
   shippingAmount checkout_NGN = 15000 \<and>
   shippingAmount (checkout_NGN\<lparr>currency := ''JPY''\<rparr>) = 10"
  using shipping_rate_by_effective_currency [of "checkout_NGN\<lparr>currency := ''EUR''\<rparr>"]
    shipping_rate_by_effective_currency [of "checkout_NGN\<lparr>currency := ''GBP''\<rparr>"]
    shipping_rate_by_effective_currency [of checkout_NGN]
    shipping_rate_by_effective_currency [of "checkout_NGN\<lparr>currency := ''JPY''\<rparr>"]
  by (simp add: checkout_NGN_def stripeCurrency_def supportedCurrencies_def)

section \<open>Contact: the order of the checks\<close>

text \<open>
  The matcher accepts the language of the regular expression: a string of three
  non-empty runs of the class, the first two separated by the at sign and the last two
  by a dot.
\<close>

lemma match_domain_iff:
  "match_domain s \<longleftrightarrow>
     (\<exists>b c. s = b @ ''.'' @ c \<and> b \<noteq> [] \<and> c \<noteq> [] \<and> list_all not_space_at b \<and> list_all not_space_at c)"
proof (induction s)
  case Nil
  then show ?case by simp
next
  case (Cons x cs)
  show ?case
  proof
    assume m: "match_domain (x # cs)"
    then have x: "not_space_at x" by simp
    from m have "(case cs of [] \<Rightarrow> False | d # ds \<Rightarrow> d = CHR ''.'' \<and> match_tld ds) \<or> match_domain cs"
      by simp
    then consider ds where "cs = CHR ''.'' # ds" "match_tld ds" | "match_domain cs"
      by (cases cs) (auto simp del: match_domain.simps)
    then show "\<exists>b c. x # cs = b @ ''.'' @ c \<and> b \<noteq> [] \<and> c \<noteq> [] \<and> list_all not_space_at b \<and> list_all not_space_at c"
    proof cases
      case 1
      with x have "x # cs = [x] @ ''.'' @ ds \<and> [x] \<noteq> [] \<and> ds \<noteq> [] \<and> list_all not_space_at [x] \<and> list_all not_space_at ds"
        by (simp add: match_tld_def)
      then show ?thesis by blast
    next
      case 2
      with Cons.IH obtain b c where "cs = b @ ''.'' @ c" "b \<noteq> []" "c \<noteq> []" "list_all not_space_at b" "list_all not_space_at c"
        by blast
      with x have "x # cs = (x # b) @ ''.'' @ c \<and> x # b \<noteq> [] \<and> c \<noteq> [] \<and> list_all not_space_at (x # b) \<and> list_all not_space_at c"
        by simp
      then show ?thesis by blast
    qed
  next
    assume "\<exists>b c. x # cs = b @ ''.'' @ c \<and> b \<noteq> [] \<and> c \<noteq> [] \<and> list_all not_space_at b \<and> list_all not_space_at c"
    then obtain b c where s: "x # cs = b @ ''.'' @ c" and b: "b \<noteq> []" and c: "c \<noteq> []"
      and ab: "list_all not_space_at b" and ac: "list_all not_space_at c"
      by blast
    from b obtain b' where b': "b = x # b'" using s by (cases b) auto
    with s have cs: "cs = b' @ ''.'' @ c" by simp
    from ab b' have x: "not_space_at x" and ab': "list_all not_space_at b'" by simp_all
    show "match_domain (x # cs)"
    proof (cases "b' = []")
      case True
      with cs c ac x show ?thesis by (simp add: match_tld_def)
    next
      case False
      with cs c ab' ac have "match_domain cs" using Cons.IH by blast
      with x show ?thesis by simp
    qed
  qed
qed

lemma match_local_iff:
  "match_local s \<longleftrightarrow>
     (\<exists>a d. s = a @ ''@'' @ d \<and> a \<noteq> [] \<and> list_all not_space_at a \<and> match_domain d)"
proof (induction s)
  case Nil
  then show ?case by simp
next
  case (Cons x cs)
  show ?case
  proof
    assume m: "match_local (x # cs)"
    then have x: "not_space_at x" by simp
    from m have "(case cs of [] \<Rightarrow> False | d # ds \<Rightarrow> d = CHR ''@'' \<and> match_domain ds) \<or> match_local cs"
      by simp
    then consider ds where "cs = CHR ''@'' # ds" "match_domain ds" | "match_local cs"
      by (cases cs) (auto simp del: match_local.simps match_domain.simps)
    then show "\<exists>a d. x # cs = a @ ''@'' @ d \<and> a \<noteq> [] \<and> list_all not_space_at a \<and> match_domain d"
    proof cases
      case 1
      with x have "x # cs = [x] @ ''@'' @ ds \<and> [x] \<noteq> [] \<and> list_all not_space_at [x] \<and> match_domain ds"
        by simp
      then show ?thesis by blast
    next
      case 2
      with Cons.IH obtain a d where "cs = a @ ''@'' @ d" "a \<noteq> []" "list_all not_space_at a" "match_domain d"
        by blast
      with x have "x # cs = (x # a) @ ''@'' @ d \<and> x # a \<noteq> [] \<and> list_all not_space_at (x # a) \<and> match_domain d"
        by simp
      then show ?thesis by blast
    qed
  next
    assume "\<exists>a d. x # cs = a @ ''@'' @ d \<and> a \<noteq> [] \<and> list_all not_space_at a \<and> match_domain d"
    then obtain a d where s: "x # cs = a @ ''@'' @ d" and a: "a \<noteq> []"
      and aa: "list_all not_space_at a" and d: "match_domain d"
      by blast
    from a obtain a' where a': "a = x # a'" using s by (cases a) auto
    with s have cs: "cs = a' @ ''@'' @ d" by simp
    from aa a' have x: "not_space_at x" and aa': "list_all not_space_at a'" by simp_all
    show "match_local (x # cs)"
    proof (cases "a' = []")
      case True
      with cs d x show ?thesis by simp
    next
      case False
      with cs aa' d have "match_local cs" using Cons.IH by blast
      with x show ?thesis by simp
    qed
  qed
qed

lemma emailRegex_test_iff:
  "emailRegex_test s \<longleftrightarrow>
     (\<exists>a b c. s = a @ ''@'' @ b @ ''.'' @ c \<and> a \<noteq> [] \<and> b \<noteq> [] \<and> c \<noteq> [] \<and>
        list_all not_space_at a \<and> list_all not_space_at b \<and> list_all not_space_at c)"
  unfolding emailRegex_test_def match_local_iff match_domain_iff by blast

lemma truthy_iff: "truthy v \<longleftrightarrow> v \<noteq> None \<and> v \<noteq> Some []"
  by (cases v) (simp_all add: truthy_def)

lemma contact_missing:
  "\<not> truthy (name req) \<or> \<not> truthy (email req) \<or> \<not> truthy (subject req) \<or> \<not> truthy (message req) \<Longrightarrow>
   contact e w req = (contact_failure 400 ''All fields are required'', [])"
  by (simp add: contact_def)

lemma contact_bad_email:
  "truthy (name req) \<Longrightarrow> truthy (email req) \<Longrightarrow> truthy (subject req) \<Longrightarrow> truthy (message req) \<Longrightarrow>
   \<not> emailRegex_test (interpolate (email req)) \<Longrightarrow>
   contact e w req = (contact_failure 400 ''Invalid email address'', [])"
  by (simp add: contact_def)

lemma contact_unconfigured:
  "truthy (name req) \<Longrightarrow> truthy (email req) \<Longrightarrow> truthy (subject req) \<Longrightarrow> truthy (message req) \<Longrightarrow>
   emailRegex_test (interpolate (email req)) \<Longrightarrow>
   \<not> truthy (EMAIL_USER e) \<or> \<not> truthy (EMAIL_PASS e) \<Longrightarrow>
   contact e w req = (contact_failure 500 ''Email service is not configured'', [])"
  by (simp add: contact_def)

lemma contact_configured:
  "truthy (name req) \<Longrightarrow> truthy (email req) \<Longrightarrow> truthy (subject req) \<Longrightarrow> truthy (message req) \<Longrightarrow>
   emailRegex_test (interpolate (email req)) \<Longrightarrow>
   truthy (EMAIL_USER e) \<Longrightarrow> truthy (EMAIL_PASS e) \<Longrightarrow>
   contact e w req =
     (case verify w of
        Some verifyError \<Rightarrow>
          (contact_failure 500 ''Email service temporarily unavailable. Please try again later.'',
           [Verify])
      | None \<Rightarrow>
          (case sendMail w 0 (contact_adminMailOptions e w req) of
             Some error \<Rightarrow>
               (contact_failure 500 (userErrorMessage error),
                [Verify, SendMail (contact_adminMailOptions e w req)])
           | None \<Rightarrow>
               (case sendMail w 1 (userMailOptions e req) of
                  Some error \<Rightarrow>
                    (contact_failure 500 (userErrorMessage error),
                     [Verify, SendMail (contact_adminMailOptions e w req),
                      SendMail (userMailOptions e req)])
                | None \<Rightarrow>
                    (contact_success,
                     [Verify, SendMail (contact_adminMailOptions e w req),
                      SendMail (userMailOptions e req)]))))"
  by (simp add: contact_def)

lemma verify_payment_rejected:
  "session_id_rejected q \<Longrightarrow>
   verify_payment w q =
     (\<lparr>status = 400, body = JObject [(''error'', JString ''Session ID is required'')]\<rparr>, [])"
  by (simp add: verify_payment_def)

lemma userErrorMessage_cases:
  "userErrorMessage t \<in>
     {''Email authentication failed. Please contact administrator.'',
      ''Email authentication failed. Please check your email configuration.'',
      ''Unable to connect to email server. Please try again later.'',
      ''Failed to send message. Please try again later.''}"
  by (simp add: userErrorMessage_def)

text \<open>
  C5. A contact request with a field that is absent or empty is answered 400, All fields
  are required, with no collaborator called; a contact request whose email does not
  match the pattern is answered 400 with no collaborator called, and the message is
  Invalid email address when no field is missing; a verify-payment request whose
  \<^verbatim>\<open>session_id\<close> is absent, an array or an object is answered 400, Session ID is
  required, with no collaborator called.
\<close>

theorem validation_failures_are_400_before_any_call:
  "(\<not> truthy (name req) \<or> \<not> truthy (email req) \<or> \<not> truthy (subject req) \<or> \<not> truthy (message req) \<longrightarrow>
      contact e w req =
        (\<lparr>status = 400,
          body = JObject [(''success'', JBool False), (''error'', JString ''All fields are required'')]\<rparr>,
         [])) \<and>
   (\<not> emailRegex_test (interpolate (email req)) \<longrightarrow>
      status (fst (contact e w req)) = 400 \<and> snd (contact e w req) = []) \<and>
   (truthy (name req) \<and> truthy (email req) \<and> truthy (subject req) \<and> truthy (message req) \<and>
    \<not> emailRegex_test (interpolate (email req)) \<longrightarrow>
      contact e w req =
        (\<lparr>status = 400,
          body = JObject [(''success'', JBool False), (''error'', JString ''Invalid email address'')]\<rparr>,
         [])) \<and>
   (q = None \<or> q = Some (QArray xs) \<or> q = Some QObject \<longrightarrow>
      verify_payment w q =
        (\<lparr>status = 400, body = JObject [(''error'', JString ''Session ID is required'')]\<rparr>, []))"
proof -
  have missing: "contact e w req =
        (\<lparr>status = 400,
          body = JObject [(''success'', JBool False), (''error'', JString ''All fields are required'')]\<rparr>,
         [])"
    if "\<not> truthy (name req) \<or> \<not> truthy (email req) \<or> \<not> truthy (subject req) \<or> \<not> truthy (message req)"
    using contact_missing [OF that] by (simp add: contact_failure_def)
  have bad: "contact e w req =
        (\<lparr>status = 400,
          body = JObject [(''success'', JBool False), (''error'', JString ''Invalid email address'')]\<rparr>,
         [])"
    if "truthy (name req)" "truthy (email req)" "truthy (subject req)" "truthy (message req)"
      "\<not> emailRegex_test (interpolate (email req))"
    using contact_bad_email [OF that] by (simp add: contact_failure_def)
  have either: "status (fst (contact e w req)) = 400 \<and> snd (contact e w req) = []"
    if "\<not> emailRegex_test (interpolate (email req))"
  proof (cases "truthy (name req) \<and> truthy (email req) \<and> truthy (subject req) \<and> truthy (message req)")
    case True
    with that show ?thesis by (simp add: bad)
  next
    case False
    then show ?thesis by (simp add: missing)
  qed
  have query: "verify_payment w q =
        (\<lparr>status = 400, body = JObject [(''error'', JString ''Session ID is required'')]\<rparr>, [])"
    if "q = None \<or> q = Some (QArray xs) \<or> q = Some QObject"
    using that by (auto simp: verify_payment_rejected session_id_rejected_def)
  from missing bad either query show ?thesis by blast
qed

theorem validation_failures_are_400_before_any_call_witness:
  "\<not> truthy (name (contact_ada\<lparr>name := Some [], email := Some ''ada.example.com''\<rparr>)) \<and>
   \<not> emailRegex_test (interpolate (email (contact_ada\<lparr>name := Some [], email := Some ''ada.example.com''\<rparr>))) \<and>
   status (fst (contact mail_env all_up (contact_ada\<lparr>name := Some [], email := Some ''ada.example.com''\<rparr>))) = 400 \<and>
   snd (contact mail_env all_up (contact_ada\<lparr>name := Some [], email := Some ''ada.example.com''\<rparr>)) = [] \<and>
   snd (verify_payment all_up None) = []"
proof -
  have "\<not> emailRegex_test ''ada.example.com''"
    by (simp add: emailRegex_test_def not_space_at_def white_space_def)
  then show ?thesis
    using validation_failures_are_400_before_any_call
      [of "contact_ada\<lparr>name := Some [], email := Some ''ada.example.com''\<rparr>" mail_env all_up None]
    by (simp add: contact_ada_def truthy_def interpolate_def)
qed

text \<open>
  C6. When the four fields are present, the email matches the pattern, the mail
  credentials are configured, and the verification and both sends succeed, the response
  is 200 with success true, and the sends attempted are exactly two: the admin
  notification, addressed to the admin address with the submitter as reply-to, and then
  the acknowledgment, addressed to the submitter.
\<close>

theorem valid_contact_sends_admin_then_user:
  assumes "truthy (name req)" "truthy (email req)" "truthy (subject req)" "truthy (message req)"
    and "emailRegex_test (interpolate (email req))"
    and "truthy (EMAIL_USER e)" "truthy (EMAIL_PASS e)"
    and "verify w = None"
    and "sendMail w 0 (contact_adminMailOptions e w req) = None"
    and "sendMail w 1 (userMailOptions e req) = None"
  shows "fst (contact e w req) =
           \<lparr>status = 200,
            body = JObject
              [(''success'', JBool True),
               (''message'',
                JString ''Message sent successfully! You should receive a confirmation email shortly.'')]\<rparr> \<and>
         snd (contact e w req) =
           [Verify, SendMail (contact_adminMailOptions e w req), SendMail (userMailOptions e req)] \<and>
         to' (contact_adminMailOptions e w req) = or_else (ADMIN_EMAIL e) (EMAIL_USER e) \<and>
         replyTo (contact_adminMailOptions e w req) = email req \<and>
         to' (userMailOptions e req) = email req"
proof -
  have "contact e w req =
      (contact_success,
       [Verify, SendMail (contact_adminMailOptions e w req), SendMail (userMailOptions e req)])"
    using assms by (simp add: contact_configured)
  then show ?thesis
    by (simp add: contact_success_def contact_adminMailOptions_def userMailOptions_def adminEmail_def)
qed

lemma emailRegex_test_ada: "emailRegex_test ''ada@example.com''"
  by (simp add: emailRegex_test_def match_tld_def not_space_at_def white_space_def)

theorem valid_contact_sends_admin_then_user_witness:
  "truthy (name contact_ada) \<and> truthy (email contact_ada) \<and> truthy (subject contact_ada) \<and>
   truthy (message contact_ada) \<and> emailRegex_test (interpolate (email contact_ada)) \<and>
   truthy (EMAIL_USER mail_env) \<and> truthy (EMAIL_PASS mail_env) \<and> verify all_up = None \<and>
   sendMail all_up 0 (contact_adminMailOptions mail_env all_up contact_ada) = None \<and>
   sendMail all_up 1 (userMailOptions mail_env contact_ada) = None \<and>
   status (fst (contact mail_env all_up contact_ada)) = 200 \<and>
   length (snd (contact mail_env all_up contact_ada)) = 3 \<and>
   to' (contact_adminMailOptions mail_env all_up contact_ada) = Some ''owner@adisaolashile.com'' \<and>
   to' (userMailOptions mail_env contact_ada) = Some ''ada@example.com''"
proof -
  have f: "truthy (name contact_ada)" "truthy (email contact_ada)" "truthy (subject contact_ada)"
    "truthy (message contact_ada)" "truthy (EMAIL_USER mail_env)" "truthy (EMAIL_PASS mail_env)"
    by (simp_all add: contact_ada_def mail_env_def truthy_def)
  have r: "emailRegex_test (interpolate (email contact_ada))"
    by (simp add: contact_ada_def interpolate_def emailRegex_test_ada)
  have u: "verify all_up = None"
    "sendMail all_up 0 (contact_adminMailOptions mail_env all_up contact_ada) = None"
    "sendMail all_up 1 (userMailOptions mail_env contact_ada) = None"
    by (simp_all add: all_up_def)
  have a: "or_else (ADMIN_EMAIL mail_env) (EMAIL_USER mail_env) = Some ''owner@adisaolashile.com''"
    "email contact_ada = Some ''ada@example.com''"
    by (simp_all add: or_else_def truthy_def mail_env_def contact_ada_def)
  from valid_contact_sends_admin_then_user [OF f(1-4) r f(5,6) u] f r u a
  show ?thesis by simp
qed

text \<open>
  C10. The contact handler answers from the first check that fails, in the order field
  presence, email pattern, mail credentials, SMTP verification. A field counts as
  missing when it is absent or the empty string. A request with an empty name and a
  malformed email gets All fields are required, and the answer Email service is not
  configured is given only to requests that have all four fields and a matching email.
\<close>

theorem contact_checks_in_order:
  "(truthy v \<longleftrightarrow> v \<noteq> None \<and> v \<noteq> Some []) \<and>
   (\<not> truthy (name req) \<or> \<not> truthy (email req) \<or> \<not> truthy (subject req) \<or> \<not> truthy (message req) \<longrightarrow>
      contact e w req = (contact_failure 400 ''All fields are required'', [])) \<and>
   (truthy (name req) \<and> truthy (email req) \<and> truthy (subject req) \<and> truthy (message req) \<longrightarrow>
      (\<not> emailRegex_test (interpolate (email req)) \<longrightarrow>
         contact e w req = (contact_failure 400 ''Invalid email address'', [])) \<and>
      (emailRegex_test (interpolate (email req)) \<longrightarrow>
         (\<not> truthy (EMAIL_USER e) \<or> \<not> truthy (EMAIL_PASS e) \<longrightarrow>
            contact e w req = (contact_failure 500 ''Email service is not configured'', [])) \<and>
         (truthy (EMAIL_USER e) \<and> truthy (EMAIL_PASS e) \<and> verify w \<noteq> None \<longrightarrow>
            contact e w req =
              (contact_failure 500 ''Email service temporarily unavailable. Please try again later.'',
               [Verify])))) \<and>
   (fst (contact e w req) = contact_failure 500 ''Email service is not configured'' \<longrightarrow>
      truthy (name req) \<and> truthy (email req) \<and> truthy (subject req) \<and> truthy (message req) \<and>
      emailRegex_test (interpolate (email req))) \<and>
   contact e w (req\<lparr>name := Some [], email := Some ''not-an-email''\<rparr>) =
     (\<lparr>status = 400,
       body = JObject [(''success'', JBool False), (''error'', JString ''All fields are required'')]\<rparr>,
      [])"
proof -
  have unavailable: "contact e w req =
      (contact_failure 500 ''Email service temporarily unavailable. Please try again later.'', [Verify])"
    if "truthy (name req)" "truthy (email req)" "truthy (subject req)" "truthy (message req)"
      "emailRegex_test (interpolate (email req))" "truthy (EMAIL_USER e)" "truthy (EMAIL_PASS e)"
      "verify w \<noteq> None"
    using that by (auto simp: contact_configured)
  have only: "truthy (name req) \<and> truthy (email req) \<and> truthy (subject req) \<and> truthy (message req) \<and>
      emailRegex_test (interpolate (email req))"
    if "fst (contact e w req) = contact_failure 500 ''Email service is not configured''"
  proof (rule ccontr)
    assume n: "\<not> ?thesis"
    show False
    proof (cases "truthy (name req) \<and> truthy (email req) \<and> truthy (subject req) \<and> truthy (message req)")
      case True
      with n have "\<not> emailRegex_test (interpolate (email req))" by simp
      with True have "contact e w req = (contact_failure 400 ''Invalid email address'', [])"
        by (simp add: contact_bad_email)
      with that show False by (simp add: contact_failure_def)
    next
      case False
      then have "contact e w req = (contact_failure 400 ''All fields are required'', [])"
        by (simp add: contact_missing)
      with that show False by (simp add: contact_failure_def)
    qed
  qed
  have example: "contact e w (req\<lparr>name := Some [], email := Some ''not-an-email''\<rparr>) =
     (\<lparr>status = 400,
       body = JObject [(''success'', JBool False), (''error'', JString ''All fields are required'')]\<rparr>,
      [])"
    by (simp add: contact_def truthy_def contact_failure_def)
  show ?thesis
    using truthy_iff [of v] contact_missing [of req e w] contact_bad_email [of req e w]
      contact_unconfigured [of req e w] unavailable only example
    by blast
qed

theorem contact_checks_in_order_witness:
  "\<not> truthy (name (contact_ada\<lparr>name := None\<rparr>)) \<and>
   contact mail_env all_up (contact_ada\<lparr>name := None\<rparr>) =
     (contact_failure 400 ''All fields are required'', []) \<and>
   truthy (name contact_ada) \<and> truthy (email contact_ada) \<and> truthy (subject contact_ada) \<and>
   truthy (message contact_ada) \<and>
   \<not> emailRegex_test (interpolate (email (contact_ada\<lparr>email := Some ''ada.example.com''\<rparr>))) \<and>
   contact mail_env all_up (contact_ada\<lparr>email := Some ''ada.example.com''\<rparr>) =
     (contact_failure 400 ''Invalid email address'', []) \<and>
   emailRegex_test (interpolate (email contact_ada)) \<and>
   \<not> truthy (EMAIL_PASS (mail_env\<lparr>EMAIL_PASS := None\<rparr>)) \<and>
   contact (mail_env\<lparr>EMAIL_PASS := None\<rparr>) (all_down NonError) contact_ada =
     (contact_failure 500 ''Email service is not configured'', []) \<and>
   truthy (EMAIL_USER mail_env) \<and> truthy (EMAIL_PASS mail_env) \<and> verify (all_down NonError) \<noteq> None \<and>
   contact mail_env (all_down NonError) contact_ada =
     (contact_failure 500 ''Email service temporarily unavailable. Please try again later.'', [Verify]) \<and>
   \<not> truthy (Some [])"
proof -
  have f: "truthy (name contact_ada)" "truthy (email contact_ada)" "truthy (subject contact_ada)"
    "truthy (message contact_ada)" "truthy (EMAIL_USER mail_env)" "truthy (EMAIL_PASS mail_env)"
    "\<not> truthy (EMAIL_PASS (mail_env\<lparr>EMAIL_PASS := None\<rparr>))" "\<not> truthy (Some [])"
    "\<not> truthy (name (contact_ada\<lparr>name := None\<rparr>))"
    by (simp_all add: contact_ada_def mail_env_def truthy_def)
  have g: "truthy (name (contact_ada\<lparr>email := Some ''ada.example.com''\<rparr>))"
    "truthy (email (contact_ada\<lparr>email := Some ''ada.example.com''\<rparr>))"
    "truthy (subject (contact_ada\<lparr>email := Some ''ada.example.com''\<rparr>))"
    "truthy (message (contact_ada\<lparr>email := Some ''ada.example.com''\<rparr>))"
    by (simp_all add: contact_ada_def truthy_def)
  have r: "emailRegex_test (interpolate (email contact_ada))"
    by (simp add: contact_ada_def interpolate_def emailRegex_test_ada)
  have n: "\<not> emailRegex_test (interpolate (email (contact_ada\<lparr>email := Some ''ada.example.com''\<rparr>)))"
    by (simp add: interpolate_def emailRegex_test_def not_space_at_def white_space_def)
  have u: "verify (all_down NonError) \<noteq> None"
    by (simp add: all_down_def)
  note missing = contact_checks_in_order
    [of "Some []" "contact_ada\<lparr>name := None\<rparr>" mail_env all_up, THEN conjunct2, THEN conjunct1]
  note bad = contact_checks_in_order
    [of "Some []" "contact_ada\<lparr>email := Some ''ada.example.com''\<rparr>" mail_env all_up,
      THEN conjunct2, THEN conjunct2, THEN conjunct1]
  note unconfigured = contact_checks_in_order
    [of "Some []" contact_ada "mail_env\<lparr>EMAIL_PASS := None\<rparr>" "all_down NonError",
      THEN conjunct2, THEN conjunct2, THEN conjunct1]
  note unavailable = contact_checks_in_order
    [of "Some []" contact_ada mail_env "all_down NonError",
      THEN conjunct2, THEN conjunct2, THEN conjunct1]
  have c1: "contact mail_env all_up (contact_ada\<lparr>name := None\<rparr>) =
      (contact_failure 400 ''All fields are required'', [])"
    using missing f(9) by blast
  have c2: "contact mail_env all_up (contact_ada\<lparr>email := Some ''ada.example.com''\<rparr>) =
      (contact_failure 400 ''Invalid email address'', [])"
    using bad g n by blast
  have c3: "contact (mail_env\<lparr>EMAIL_PASS := None\<rparr>) (all_down NonError) contact_ada =
      (contact_failure 500 ''Email service is not configured'', [])"
    using unconfigured f(1-4,7) r by blast
  have c4: "contact mail_env (all_down NonError) contact_ada =
      (contact_failure 500 ''Email service temporarily unavailable. Please try again later.'', [Verify])"
    using unavailable f(1-6) r u by blast
  from f g r n u c1 c2 c3 c4 show ?thesis by blast
qed

section \<open>The order of the two sends\<close>

lemma contact_calls_prefix:
  "prefix (snd (contact e w req))
     [Verify, SendMail (contact_adminMailOptions e w req), SendMail (userMailOptions e req)]"
  by (simp add: contact_def split: option.split)

lemma send_receipt_calls_prefix:
  "prefix (snd (send_receipt e w req))
     [SendMail (customerMailOptions e w req), SendMail (adminMailOptions e w req)]"
  by (simp add: send_receipt_def split: option.split)

lemma send_receipt_first_fails:
  "truthy (EMAIL_USER e) \<Longrightarrow> truthy (EMAIL_PASS e) \<Longrightarrow>
   sendMail w 0 (customerMailOptions e w req) = Some t \<Longrightarrow>
   send_receipt e w req = (receipt_failure t, [SendMail (customerMailOptions e w req)])"
  by (simp add: send_receipt_def)

lemma send_receipt_second_fails:
  "truthy (EMAIL_USER e) \<Longrightarrow> truthy (EMAIL_PASS e) \<Longrightarrow>
   sendMail w 0 (customerMailOptions e w req) = None \<Longrightarrow>
   sendMail w 1 (adminMailOptions e w req) = Some t \<Longrightarrow>
   send_receipt e w req =
     (receipt_failure t,
      [SendMail (customerMailOptions e w req), SendMail (adminMailOptions e w req)])"
  by (simp add: send_receipt_def)

lemma send_receipt_sent:
  "truthy (EMAIL_USER e) \<Longrightarrow> truthy (EMAIL_PASS e) \<Longrightarrow>
   sendMail w 0 (customerMailOptions e w req) = None \<Longrightarrow>
   sendMail w 1 (adminMailOptions e w req) = None \<Longrightarrow>
   send_receipt e w req =
     (receipt_success req,
      [SendMail (customerMailOptions e w req), SendMail (adminMailOptions e w req)])"
  by (simp add: send_receipt_def)

text \<open>
  C7, as the claim has it, fails on the receipt flow: with every send succeeding the
  first mail of the receipt handler is the customer's and the second the admin's, and
  when it is the admin's send that throws, the customer's has already been attempted.
\<close>

theorem receipt_sends_customer_before_admin:
  "snd (send_receipt mail_env all_up receipt_ada) ! 0 =
     SendMail (customerMailOptions mail_env all_up receipt_ada) \<and>
   snd (send_receipt mail_env all_up receipt_ada) ! 1 =
     SendMail (adminMailOptions mail_env all_up receipt_ada) \<and>
   to' (customerMailOptions mail_env all_up receipt_ada) = Some ''ada@example.com'' \<and>
   to' (adminMailOptions mail_env all_up receipt_ada) = Some ''owner@adisaolashile.com'' \<and>
   sendMail (send_fails_at 1 NonError) 1
     (adminMailOptions mail_env (send_fails_at 1 NonError) receipt_ada) = Some NonError \<and>
   snd (send_receipt mail_env (send_fails_at 1 NonError) receipt_ada) ! 0 =
     SendMail (customerMailOptions mail_env (send_fails_at 1 NonError) receipt_ada)"
proof -
  have c: "truthy (EMAIL_USER mail_env)" "truthy (EMAIL_PASS mail_env)"
    by (simp_all add: mail_env_def truthy_def)
  have "send_receipt mail_env all_up receipt_ada =
      (receipt_success receipt_ada,
       [SendMail (customerMailOptions mail_env all_up receipt_ada),
        SendMail (adminMailOptions mail_env all_up receipt_ada)])"
    by (rule send_receipt_sent [OF c]) (simp_all add: all_up_def)
  moreover have "send_receipt mail_env (send_fails_at 1 NonError) receipt_ada =
      (receipt_failure NonError,
       [SendMail (customerMailOptions mail_env (send_fails_at 1 NonError) receipt_ada),
        SendMail (adminMailOptions mail_env (send_fails_at 1 NonError) receipt_ada)])"
    by (rule send_receipt_second_fails [OF c]) (simp_all add: send_fails_at_def all_up_def)
  moreover have "to' (customerMailOptions mail_env all_up receipt_ada) = Some ''ada@example.com''"
    by (simp add: customerMailOptions_def receipt_ada_def)
  moreover have "to' (adminMailOptions mail_env all_up receipt_ada) = Some ''owner@adisaolashile.com''"
    by (simp add: adminMailOptions_def adminEmail_def or_else_def truthy_def mail_env_def)
  moreover have "sendMail (send_fails_at 1 NonError) 1
     (adminMailOptions mail_env (send_fails_at 1 NonError) receipt_ada) = Some NonError"
    by (simp add: send_fails_at_def all_up_def)
  ultimately show ?thesis by simp
qed

text \<open>
  C7, amended. The contact handler sends the admin mail and awaits it before the user
  mail; the receipt handler sends the customer mail and awaits it before the admin
  mail. In both, the calls attempted are an initial part of that sequence, and when the
  first send throws the second is not attempted.
\<close>

theorem sends_are_sequential:
  "prefix (snd (contact e w req))
     [Verify, SendMail (contact_adminMailOptions e w req), SendMail (userMailOptions e req)] \<and>
   (sendMail w 0 (contact_adminMailOptions e w req) \<noteq> None \<longrightarrow>
      prefix (snd (contact e w req)) [Verify, SendMail (contact_adminMailOptions e w req)]) \<and>
   (truthy (name req) \<and> truthy (email req) \<and> truthy (subject req) \<and> truthy (message req) \<and>
    emailRegex_test (interpolate (email req)) \<and> truthy (EMAIL_USER e) \<and> truthy (EMAIL_PASS e) \<and>
    verify w = None \<and> sendMail w 0 (contact_adminMailOptions e w req) \<noteq> None \<longrightarrow>
      snd (contact e w req) = [Verify, SendMail (contact_adminMailOptions e w req)]) \<and>
   to' (contact_adminMailOptions e w req) = or_else (ADMIN_EMAIL e) (EMAIL_USER e) \<and>
   to' (userMailOptions e req) = email req \<and>
   prefix (snd (send_receipt e w r))
     [SendMail (customerMailOptions e w r), SendMail (adminMailOptions e w r)] \<and>
   (sendMail w 0 (customerMailOptions e w r) \<noteq> None \<longrightarrow>
      prefix (snd (send_receipt e w r)) [SendMail (customerMailOptions e w r)]) \<and>
   (truthy (EMAIL_USER e) \<and> truthy (EMAIL_PASS e) \<and>
    sendMail w 0 (customerMailOptions e w r) \<noteq> None \<longrightarrow>
      snd (send_receipt e w r) = [SendMail (customerMailOptions e w r)]) \<and>
   to' (customerMailOptions e w r) = Some (customerEmail' r) \<and>
   to' (adminMailOptions e w r) = or_else (ADMIN_EMAIL e) (EMAIL_USER e)"
proof -
  have c1: "prefix (snd (contact e w req)) [Verify, SendMail (contact_adminMailOptions e w req)]"
    if "sendMail w 0 (contact_adminMailOptions e w req) \<noteq> None"
    using that by (auto simp: contact_def split: option.split)
  have c2: "snd (contact e w req) = [Verify, SendMail (contact_adminMailOptions e w req)]"
    if "truthy (name req)" "truthy (email req)" "truthy (subject req)" "truthy (message req)"
      "emailRegex_test (interpolate (email req))" "truthy (EMAIL_USER e)" "truthy (EMAIL_PASS e)"
      "verify w = None" "sendMail w 0 (contact_adminMailOptions e w req) \<noteq> None"
    using that by (auto simp: contact_configured)
  have r1: "prefix (snd (send_receipt e w r)) [SendMail (customerMailOptions e w r)]"
    if "sendMail w 0 (customerMailOptions e w r) \<noteq> None"
    using that by (auto simp: send_receipt_def split: option.split)
  have r2: "snd (send_receipt e w r) = [SendMail (customerMailOptions e w r)]"
    if "truthy (EMAIL_USER e)" "truthy (EMAIL_PASS e)"
      "sendMail w 0 (customerMailOptions e w r) \<noteq> None"
    using that by (auto simp: send_receipt_first_fails)
  have t: "to' (contact_adminMailOptions e w req) = or_else (ADMIN_EMAIL e) (EMAIL_USER e)"
    "to' (userMailOptions e req) = email req"
    "to' (customerMailOptions e w r) = Some (customerEmail' r)"
    "to' (adminMailOptions e w r) = or_else (ADMIN_EMAIL e) (EMAIL_USER e)"
    by (simp_all add: contact_adminMailOptions_def userMailOptions_def customerMailOptions_def
        adminMailOptions_def adminEmail_def)
  from contact_calls_prefix [of e w req] send_receipt_calls_prefix [of e w r] c1 c2 r1 r2 t
  show ?thesis by blast
qed

theorem sends_are_sequential_witness:
  "truthy (name contact_ada) \<and> truthy (email contact_ada) \<and> truthy (subject contact_ada) \<and>
   truthy (message contact_ada) \<and> emailRegex_test (interpolate (email contact_ada)) \<and>
   truthy (EMAIL_USER mail_env) \<and> truthy (EMAIL_PASS mail_env) \<and>
   verify (send_fails_at 0 NonError) = None \<and>
   sendMail (send_fails_at 0 NonError) 0
     (contact_adminMailOptions mail_env (send_fails_at 0 NonError) contact_ada) \<noteq> None \<and>
   snd (contact mail_env (send_fails_at 0 NonError) contact_ada) =
     [Verify, SendMail (contact_adminMailOptions mail_env (send_fails_at 0 NonError) contact_ada)] \<and>
   sendMail (send_fails_at 0 NonError) 0
     (customerMailOptions mail_env (send_fails_at 0 NonError) receipt_ada) \<noteq> None \<and>
   snd (send_receipt mail_env (send_fails_at 0 NonError) receipt_ada) =
     [SendMail (customerMailOptions mail_env (send_fails_at 0 NonError) receipt_ada)]"
proof -
  have f: "truthy (name contact_ada)" "truthy (email contact_ada)" "truthy (subject contact_ada)"
    "truthy (message contact_ada)" "truthy (EMAIL_USER mail_env)" "truthy (EMAIL_PASS mail_env)"
    by (simp_all add: contact_ada_def mail_env_def truthy_def)
  have r: "emailRegex_test (interpolate (email contact_ada))"
    by (simp add: contact_ada_def interpolate_def emailRegex_test_ada)
  have u: "verify (send_fails_at 0 NonError) = None"
    "sendMail (send_fails_at 0 NonError) 0
       (contact_adminMailOptions mail_env (send_fails_at 0 NonError) contact_ada) \<noteq> None"
    "sendMail (send_fails_at 0 NonError) 0
       (customerMailOptions mail_env (send_fails_at 0 NonError) receipt_ada) \<noteq> None"
    by (simp_all add: send_fails_at_def all_up_def)
  from sends_are_sequential [of mail_env "send_fails_at 0 NonError" contact_ada receipt_ada] f r u
  show ?thesis by simp
qed

section \<open>What a thrown error becomes\<close>

lemma contact_500_public:
  "status (fst (contact e w req)) = 500 \<Longrightarrow>
   \<exists>m \<in> {''Email service is not configured'',
          ''Email service temporarily unavailable. Please try again later.'',
          ''Email authentication failed. Please contact administrator.'',
          ''Email authentication failed. Please check your email configuration.'',
          ''Unable to connect to email server. Please try again later.'',
          ''Failed to send message. Please try again later.''}.
     fst (contact e w req) = contact_failure 500 m"
proof -
  assume s: "status (fst (contact e w req)) = 500"
  have all4: "truthy (name req) \<and> truthy (email req) \<and> truthy (subject req) \<and> truthy (message req)"
  proof (rule ccontr)
    assume "\<not> ?thesis"
    then have "contact e w req = (contact_failure 400 ''All fields are required'', [])"
      by (intro contact_missing) blast
    with s show False by (simp add: contact_failure_def)
  qed
  then have fields: "truthy (name req)" "truthy (email req)" "truthy (subject req)" "truthy (message req)"
    by simp_all
  have pattern: "emailRegex_test (interpolate (email req))"
  proof (rule ccontr)
    assume "\<not> ?thesis"
    then have "contact e w req = (contact_failure 400 ''Invalid email address'', [])"
      using fields by (simp add: contact_bad_email)
    with s show False by (simp add: contact_failure_def)
  qed
  show ?thesis
  proof (cases "truthy (EMAIL_USER e) \<and> truthy (EMAIL_PASS e)")
    case False
    with fields pattern show ?thesis by (simp add: contact_unconfigured)
  next
    case True
    note conf = contact_configured [OF fields pattern conjunct1 [OF True] conjunct2 [OF True], of w]
    have sent: "\<exists>m \<in> {''Email service is not configured'',
          ''Email service temporarily unavailable. Please try again later.'',
          ''Email authentication failed. Please contact administrator.'',
          ''Email authentication failed. Please check your email configuration.'',
          ''Unable to connect to email server. Please try again later.'',
          ''Failed to send message. Please try again later.''}.
        contact_failure 500 (userErrorMessage t) = contact_failure 500 m" for t
      using userErrorMessage_cases [of t] by (intro bexI [of _ "userErrorMessage t"]) auto
    show ?thesis
    proof (cases "verify w")
      case (Some t)
      then show ?thesis by (simp add: conf)
    next
      case None
      note v = this
      show ?thesis
      proof (cases "sendMail w 0 (contact_adminMailOptions e w req)")
        case (Some t)
        with v have "fst (contact e w req) = contact_failure 500 (userErrorMessage t)"
          by (simp add: conf)
        with sent [of t] show ?thesis by simp
      next
        case None
        note a = this
        show ?thesis
        proof (cases "sendMail w 1 (userMailOptions e req)")
          case (Some t)
          with v a have "fst (contact e w req) = contact_failure 500 (userErrorMessage t)"
            by (simp add: conf)
          with sent [of t] show ?thesis by simp
        next
          case None
          with v a have "fst (contact e w req) = contact_success"
            by (simp add: conf)
          with s show ?thesis by (simp add: contact_success_def)
        qed
      qed
    qed
  qed
qed

lemma contact_thrown_500:
  assumes "truthy (name req)" "truthy (email req)" "truthy (subject req)" "truthy (message req)"
    and "emailRegex_test (interpolate (email req))"
    and "truthy (EMAIL_USER e)" "truthy (EMAIL_PASS e)"
    and "verify w \<noteq> None \<or> sendMail w 0 (contact_adminMailOptions e w req) \<noteq> None \<or>
         sendMail w 1 (userMailOptions e req) \<noteq> None"
  shows "status (fst (contact e w req)) = 500"
  using assms(8) by (auto simp: contact_configured [OF assms(1-7)] contact_failure_def split: option.splits)

lemma verify_payment_thrown:
  "\<not> session_id_rejected q \<Longrightarrow>
   sessions_retrieve w (session_id_string q) [''payment_intent''] = Inl t \<Longrightarrow>
   fst (verify_payment w q) =
     \<lparr>status = 500, body = JObject [(''error'', JString (errorMessage t))]\<rparr>"
  by (simp add: verify_payment_def)

text \<open>
  C8, as the claim has it, fails on the receipt handler: when its send throws an Error,
  the response carries that Error's own message in the error field.
\<close>

theorem receipt_failure_shows_raw_message:
  "sendMail (all_down (Error ''connect ECONNREFUSED 10.0.0.5:465'')) 0
     (customerMailOptions mail_env (all_down (Error ''connect ECONNREFUSED 10.0.0.5:465'')) receipt_ada) =
     Some (Error ''connect ECONNREFUSED 10.0.0.5:465'') \<and>
   fst (send_receipt mail_env (all_down (Error ''connect ECONNREFUSED 10.0.0.5:465'')) receipt_ada) =
     \<lparr>status = 500, body = JObject [(''error'', JString ''connect ECONNREFUSED 10.0.0.5:465'')]\<rparr>"
proof -
  have c: "truthy (EMAIL_USER mail_env)" "truthy (EMAIL_PASS mail_env)"
    by (simp_all add: mail_env_def truthy_def)
  have s: "sendMail (all_down (Error ''connect ECONNREFUSED 10.0.0.5:465'')) 0
     (customerMailOptions mail_env (all_down (Error ''connect ECONNREFUSED 10.0.0.5:465'')) receipt_ada) =
     Some (Error ''connect ECONNREFUSED 10.0.0.5:465'')"
    by (simp add: all_down_def)
  show ?thesis
    by (simp add: s send_receipt_first_fails [OF c s] receipt_failure_def errorMessage_def)
qed

text \<open>
  C8, amended. When a collaborator throws, the contact handler answers 500 with one of
  its fixed messages, whatever was thrown; the receipt, checkout and verify handlers
  answer 500 with the thrown Error's own message in the error field, and with Unknown
  error occurred when the thrown value is not an Error.
\<close>

theorem thrown_errors_by_handler:
  "(truthy (name req) \<and> truthy (email req) \<and> truthy (subject req) \<and> truthy (message req) \<and>
    emailRegex_test (interpolate (email req)) \<and> truthy (EMAIL_USER e) \<and> truthy (EMAIL_PASS e) \<and>
    (verify w \<noteq> None \<or> sendMail w 0 (contact_adminMailOptions e w req) \<noteq> None \<or>
     sendMail w 1 (userMailOptions e req) \<noteq> None) \<longrightarrow>
      status (fst (contact e w req)) = 500) \<and>
   (status (fst (contact e w req)) = 500 \<longrightarrow>
      (\<exists>m \<in> {''Email service is not configured'',
              ''Email service temporarily unavailable. Please try again later.'',
              ''Email authentication failed. Please contact administrator.'',
              ''Email authentication failed. Please check your email configuration.'',
              ''Unable to connect to email server. Please try again later.'',
              ''Failed to send message. Please try again later.''}.
         fst (contact e w req) =
           \<lparr>status = 500, body = JObject [(''success'', JBool False), (''error'', JString m)]\<rparr>)) \<and>
   (truthy (EMAIL_USER e) \<and> truthy (EMAIL_PASS e) \<and>
    (sendMail w 0 (customerMailOptions e w r) = Some t \<or>
     sendMail w 0 (customerMailOptions e w r) = None \<and> sendMail w 1 (adminMailOptions e w r) = Some t) \<longrightarrow>
      fst (send_receipt e w r) =
        \<lparr>status = 500, body = JObject [(''error'', JString (errorMessage t))]\<rparr>) \<and>
   (sessions_create w (sessionParams c) = Inl t \<longrightarrow>
      fst (create_checkout_session w c) =
        \<lparr>status = 500, body = JObject [(''error'', JString (errorMessage t))]\<rparr>) \<and>
   (\<not> session_id_rejected q \<and>
    sessions_retrieve w (session_id_string q) [''payment_intent''] = Inl t \<longrightarrow>
      fst (verify_payment w q) =
        \<lparr>status = 500, body = JObject [(''error'', JString (errorMessage t))]\<rparr>) \<and>
   errorMessage (Error msg) = msg \<and>
   errorMessage NonError = ''Unknown error occurred''"
proof -
  have public: "\<exists>m \<in> {''Email service is not configured'',
              ''Email service temporarily unavailable. Please try again later.'',
              ''Email authentication failed. Please contact administrator.'',
              ''Email authentication failed. Please check your email configuration.'',
              ''Unable to connect to email server. Please try again later.'',
              ''Failed to send message. Please try again later.''}.
         fst (contact e w req) =
           \<lparr>status = 500, body = JObject [(''success'', JBool False), (''error'', JString m)]\<rparr>"
    if "status (fst (contact e w req)) = 500"
    using contact_500_public [OF that] unfolding contact_failure_def .
  have receipt: "fst (send_receipt e w r) =
        \<lparr>status = 500, body = JObject [(''error'', JString (errorMessage t))]\<rparr>"
    if "truthy (EMAIL_USER e)" "truthy (EMAIL_PASS e)"
      "sendMail w 0 (customerMailOptions e w r) = Some t \<or>
       sendMail w 0 (customerMailOptions e w r) = None \<and> sendMail w 1 (adminMailOptions e w r) = Some t"
    using that send_receipt_first_fails [of e w r t] send_receipt_second_fails [of e w r t]
    by (auto simp: receipt_failure_def)
  have msgs: "errorMessage (Error msg) = msg" "errorMessage NonError = ''Unknown error occurred''"
    by (simp_all add: errorMessage_def)
  from contact_thrown_500 [of req e w] public receipt checkout_thrown [of w c t]
    verify_payment_thrown [of q w t] msgs
  show ?thesis by blast
qed

theorem thrown_errors_by_handler_witness:
  "truthy (EMAIL_USER mail_env) \<and> truthy (EMAIL_PASS mail_env) \<and>
   sendMail (all_down (Error ''EAUTH 535'')) 0
     (customerMailOptions mail_env (all_down (Error ''EAUTH 535'')) receipt_ada) = Some (Error ''EAUTH 535'') \<and>
   fst (send_receipt mail_env (all_down (Error ''EAUTH 535'')) receipt_ada) =
     \<lparr>status = 500, body = JObject [(''error'', JString ''EAUTH 535'')]\<rparr> \<and>
   sessions_create (all_down (Error ''EAUTH 535'')) (sessionParams checkout_NGN) = Inl (Error ''EAUTH 535'') \<and>
   fst (create_checkout_session (all_down (Error ''EAUTH 535'')) checkout_NGN) =
     \<lparr>status = 500, body = JObject [(''error'', JString ''EAUTH 535'')]\<rparr> \<and>
   \<not> session_id_rejected (Some (QString ''cs_test_a1'')) \<and>
   fst (verify_payment (all_down (Error ''EAUTH 535'')) (Some (QString ''cs_test_a1''))) =
     \<lparr>status = 500, body = JObject [(''error'', JString ''EAUTH 535'')]\<rparr> \<and>
   truthy (name contact_ada) \<and> truthy (email contact_ada) \<and> truthy (subject contact_ada) \<and>
   truthy (message contact_ada) \<and> emailRegex_test (interpolate (email contact_ada)) \<and>
   verify (all_down (Error ''EAUTH 535'')) \<noteq> None \<and>
   status (fst (contact mail_env (all_down (Error ''EAUTH 535'')) contact_ada)) = 500"
proof -
  have f: "truthy (name contact_ada)" "truthy (email contact_ada)" "truthy (subject contact_ada)"
    "truthy (message contact_ada)" "truthy (EMAIL_USER mail_env)" "truthy (EMAIL_PASS mail_env)"
    by (simp_all add: contact_ada_def mail_env_def truthy_def)
  have r: "emailRegex_test (interpolate (email contact_ada))"
    by (simp add: contact_ada_def interpolate_def emailRegex_test_ada)
  have u: "verify (all_down (Error ''EAUTH 535'')) \<noteq> None"
    "sendMail (all_down (Error ''EAUTH 535'')) 0
       (customerMailOptions mail_env (all_down (Error ''EAUTH 535'')) receipt_ada) = Some (Error ''EAUTH 535'')"
    "sessions_create (all_down (Error ''EAUTH 535'')) (sessionParams checkout_NGN) = Inl (Error ''EAUTH 535'')"
    "sessions_retrieve (all_down (Error ''EAUTH 535''))
       (session_id_string (Some (QString ''cs_test_a1''))) [''payment_intent''] = Inl (Error ''EAUTH 535'')"
    "\<not> session_id_rejected (Some (QString ''cs_test_a1''))"
    by (simp_all add: all_down_def session_id_rejected_def)
  from thrown_errors_by_handler
    [of contact_ada mail_env "all_down (Error ''EAUTH 535'')" receipt_ada "Error ''EAUTH 535''"
      checkout_NGN "Some (QString ''cs_test_a1'')" "''EAUTH 535''"] f r u
  show ?thesis by (simp add: errorMessage_def)
qed

section \<open>The amounts a receipt shows\<close>






end
